theory Spec2Isabelle
  imports Main
begin

section \<open>JavaScript values and exceptions\<close>

text \<open>
  The services of the repository (\<^verbatim>\<open>js/github-service.js\<close>, \<^verbatim>\<open>js/real-time-service.js\<close>)
  exchange JSON documents with a remote content API.  A JavaScript value, as far as these
  services handle one, is \<^verbatim>\<open>undefined\<close>, \<^verbatim>\<open>null\<close>, a boolean, a number, a string,
  an array or a plain object; an object keeps its properties in insertion order.
\<close>

datatype jv =
    Undefined
  | Null
  | Bool bool
  | Num int
  | Str string
  | Arr "jv list"
  | Obj "(string \<times> jv) list"

text \<open>
  What a \<^verbatim>\<open>throw\<close> carries.  \<open>Error m\<close> is \<^verbatim>\<open>new Error(...)\<close>; of its message only the
  fixed prefix \<open>m\<close> is kept (the interpolated status codes and inner messages are not).
  \<open>FetchFailed\<close> is the rejection of \<^verbatim>\<open>fetch\<close> itself, \<open>SyntaxError\<close> the one of
  \<^verbatim>\<open>JSON.parse\<close> and \<^verbatim>\<open>response.json()\<close>, \<open>InvalidCharacterError\<close> the one of
  \<^verbatim>\<open>atob\<close> and \<^verbatim>\<open>btoa\<close>, \<open>URIError\<close> the one of \<^verbatim>\<open>encodeURIComponent\<close>, and
  \<open>ReadError\<close> the one of a \<^verbatim>\<open>FileReader\<close>.
\<close>

datatype exn =
    TypeError
  | SyntaxError
  | InvalidCharacterError
  | URIError
  | FetchFailed
  | ReadError
  | Error string

text \<open>Truthiness, as \<^verbatim>\<open>if (v)\<close>, \<^verbatim>\<open>!v\<close>, \<^verbatim>\<open>a && b\<close> and \<^verbatim>\<open>a || b\<close> test it.\<close>

fun truthy :: "jv \<Rightarrow> bool" where
  "truthy Undefined = False"
| "truthy Null = False"
| "truthy (Bool b) = b"
| "truthy (Num n) = (n \<noteq> 0)"
| "truthy (Str s) = (s \<noteq> [])"
| "truthy (Arr xs) = True"
| "truthy (Obj ps) = True"

text \<open>
  Property access \<^verbatim>\<open>v.k\<close>: a \<^verbatim>\<open>TypeError\<close> on \<^verbatim>\<open>undefined\<close> and \<^verbatim>\<open>null\<close>, the
  property or \<^verbatim>\<open>undefined\<close> on an object, \<^verbatim>\<open>undefined\<close> on every other value (none of
  the keys the services read is a built-in property of a string, a number or an array).
\<close>

fun get_prop :: "jv \<Rightarrow> string \<Rightarrow> exn + jv" where
  "get_prop Undefined k = Inl TypeError"
| "get_prop Null k = Inl TypeError"
| "get_prop (Obj ps) k = (case map_of ps k of None \<Rightarrow> Inr Undefined | Some v \<Rightarrow> Inr v)"
| "get_prop v k = Inr Undefined"

text \<open>Optional chaining \<^verbatim>\<open>v?.k\<close>.\<close>

fun opt_prop :: "jv \<Rightarrow> string \<Rightarrow> jv" where
  "opt_prop (Obj ps) k = (case map_of ps k of None \<Rightarrow> Undefined | Some v \<Rightarrow> v)"
| "opt_prop v k = Undefined"

text \<open>\<^verbatim>\<open>a || b\<close> on values.\<close>

definition or_else :: "jv \<Rightarrow> jv \<Rightarrow> jv" where
  "or_else a b = (if truthy a then a else b)"

text \<open>
  Strict equality \<^verbatim>\<open>a === b\<close>.  Primitive values are compared by value.  Arrays and
  objects are compared by identity; every array or object compared here comes out of a
  fresh \<^verbatim>\<open>JSON.parse\<close>, so it is identical to no other value.
\<close>

fun strict_eq :: "jv \<Rightarrow> jv \<Rightarrow> bool" where
  "strict_eq (Arr xs) b = False"
| "strict_eq (Obj ps) b = False"
| "strict_eq a b = (a = b)"

text \<open>Assignment \<^verbatim>\<open>o[k] = v\<close> on a property list: in place when the key exists, appended otherwise.\<close>

fun set_prop :: "(string \<times> jv) list \<Rightarrow> string \<Rightarrow> jv \<Rightarrow> (string \<times> jv) list" where
  "set_prop [] k v = [(k, v)]"
| "set_prop ((k', v') # ps) k v = (if k' = k then (k', v) # ps else (k', v') # set_prop ps k v)"

text \<open>\<^verbatim>\<open>xs.push(x)\<close>: only an array has the method.\<close>

fun push :: "jv \<Rightarrow> jv \<Rightarrow> exn + jv" where
  "push (Arr xs) x = Inr (Arr (xs @ [x]))"
| "push v x = Inl TypeError"

text \<open>
  A parameter with a default value, \<^verbatim>\<open>f(x = d)\<close>: the default replaces an argument that is
  missing or \<^verbatim>\<open>undefined\<close>.
\<close>

definition default_to :: "jv \<Rightarrow> jv \<Rightarrow> jv" where
  "default_to v d = (if v = Undefined then d else v)"

section \<open>Built-ins of the browser\<close>

text \<open>
  The code calls \<^verbatim>\<open>atob\<close>, \<^verbatim>\<open>btoa\<close>, \<^verbatim>\<open>unescape(encodeURIComponent(...))\<close>,
  \<^verbatim>\<open>JSON.parse\<close>, \<^verbatim>\<open>JSON.stringify\<close> and \<^verbatim>\<open>String.prototype.toLowerCase\<close>, and it
  interpolates values into template literals (\<open>toString\<close>).  They are not code of the
  repository: every operation takes them as a parameter, and every theorem holds whatever
  they compute.  A result \<open>None\<close> is the built-in throwing.  \<open>atob\<close> takes the value it is
  given (it converts its argument to a string itself).
\<close>

record builtins =
  atob :: "jv \<Rightarrow> string option"
  btoa :: "string \<Rightarrow> string option"
  utf8 :: "string \<Rightarrow> string option"
  JSON_parse :: "string \<Rightarrow> jv option"
  JSON_stringify :: "jv \<Rightarrow> string"
  toLowerCase :: "string \<Rightarrow> string"
  toString :: "jv \<Rightarrow> string"

section \<open>The world: network, subscribers' invocations, console, storage\<close>

datatype http_method = GET | PUT

text \<open>
  A request as \<^verbatim>\<open>fetch\<close> receives it: the method, the URL, the token interpolated into the
  \<^verbatim>\<open>Authorization\<close> header (\<open>None\<close> when the call sets no such header) and the body.  The
  \<^verbatim>\<open>Accept\<close> and \<^verbatim>\<open>Content-Type\<close> headers are the same constants at every call site.
\<close>

record request =
  meth :: http_method
  url :: string
  auth :: "jv option"
  body :: "string option"

text \<open>
  A response: its status, and the document \<^verbatim>\<open>response.json()\<close> resolves to (\<open>None\<close> when
  it rejects).  \<^verbatim>\<open>response.ok\<close> is the status being in 200..299.
\<close>

datatype response = Response (status: nat) (payload: "jv option")

definition ok :: "response \<Rightarrow> bool" where
  "ok r = (200 \<le> status r \<and> status r \<le> 299)"

text \<open>
  A subscriber callback: an identity (what \<^verbatim>\<open>sub !== callback\<close> compares) and what a call
  does to the caller: \<open>None\<close> when it returns, \<open>Some e\<close> when it throws \<open>e\<close>.
\<close>

record callback =
  cb_id :: nat
  cb_run :: "jv \<Rightarrow> string \<Rightarrow> exn option"

datatype event =
    Sent request
  | Invoked nat jv string

text \<open>
  The world outside the services.  \<open>replies\<close> is what the network answers to the
  requests to come, in order (\<open>None\<close>: the request fails without a response); any behaviour
  of the remote side during one operation is such a list.  \<open>trace\<close> is what the services
  have done so far, oldest first: the requests sent and the callbacks invoked.  \<open>console\<close>
  holds the \<^verbatim>\<open>console.error\<close> lines (their fixed text), \<open>timers\<close> the delays given to
  \<^verbatim>\<open>setTimeout\<close>.
\<close>

record world =
  replies :: "response option list"
  trace :: "event list"
  console :: "string list"
  localStorage :: "string \<rightharpoonup> string"
  timers :: "nat list"

text \<open>
  An operation runs in a state and either throws or returns.  The state is the world, or,
  for a method that assigns fields of \<^verbatim>\<open>this\<close>, the object together with the world: what
  a method has assigned before it throws stays assigned.
\<close>

type_synonym ('s, 'a) op = "'s \<Rightarrow> (exn + 'a) \<times> 's"

type_synonym 'a io = "(world, 'a) op"

definition ret :: "'a \<Rightarrow> ('s, 'a) op" where
  "ret x w = (Inr x, w)"

definition throw :: "exn \<Rightarrow> ('s, 'a) op" where
  "throw e w = (Inl e, w)"

definition lift :: "exn + 'a \<Rightarrow> ('s, 'a) op" where
  "lift r w = (r, w)"

definition and_then :: "('s, 'a) op \<Rightarrow> ('a \<Rightarrow> ('s, 'b) op) \<Rightarrow> ('s, 'b) op" where
  "and_then m f w = (case m w of (Inl e, w') \<Rightarrow> (Inl e, w') | (Inr x, w') \<Rightarrow> f x w')"

definition try_catch :: "('s, 'a) op \<Rightarrow> (exn \<Rightarrow> ('s, 'a) op) \<Rightarrow> ('s, 'a) op" where
  "try_catch m h w = (case m w of (Inl e, w') \<Rightarrow> h e w' | (Inr x, w') \<Rightarrow> (Inr x, w'))"

definition lift_opt :: "exn \<Rightarrow> 'a option \<Rightarrow> ('s, 'a) op" where
  "lift_opt e r = (case r of None \<Rightarrow> throw e | Some x \<Rightarrow> ret x)"

text \<open>Reading \<^verbatim>\<open>this\<close>, assigning its fields, and calling one of its methods that assigns none.\<close>

definition get_this :: "('t \<times> world, 't) op" where
  "get_this = (\<lambda>(t, w). (Inr t, (t, w)))"

definition set_this :: "('t \<Rightarrow> 't) \<Rightarrow> ('t \<times> world, unit) op" where
  "set_this f = (\<lambda>(t, w). (Inr (), (f t, w)))"

definition on_this :: "('t \<Rightarrow> 'a io) \<Rightarrow> ('t \<times> world, 'a) op" where
  "on_this f = (\<lambda>(t, w). case f t w of (r, w') \<Rightarrow> (r, (t, w')))"

definition console_error :: "string \<Rightarrow> unit io" where
  "console_error m w = (Inr (), w\<lparr>console := console w @ [m]\<rparr>)"

definition fetch :: "request \<Rightarrow> response io" where
  "fetch rq w =
     (case replies w of
        [] \<Rightarrow> (Inl FetchFailed, w\<lparr>trace := trace w @ [Sent rq]\<rparr>)
      | None # rs \<Rightarrow> (Inl FetchFailed, w\<lparr>replies := rs, trace := trace w @ [Sent rq]\<rparr>)
      | Some r # rs \<Rightarrow> (Inr r, w\<lparr>replies := rs, trace := trace w @ [Sent rq]\<rparr>))"

definition json :: "response \<Rightarrow> jv io" where
  "json r = (case payload r of None \<Rightarrow> throw SyntaxError | Some d \<Rightarrow> ret d)"

text \<open>One call \<^verbatim>\<open>callback(data, type)\<close>.\<close>

definition invoke :: "callback \<Rightarrow> jv \<Rightarrow> string \<Rightarrow> unit io" where
  "invoke cb data type w =
     (case cb_run cb data type of
        None \<Rightarrow> (Inr (), w\<lparr>trace := trace w @ [Invoked (cb_id cb) data type]\<rparr>)
      | Some e \<Rightarrow> (Inl e, w\<lparr>trace := trace w @ [Invoked (cb_id cb) data type]\<rparr>))"

text \<open>
  \<^verbatim>\<open>subscribers.forEach(callback => { try { callback(data, type) } catch (error) {
  console.error(msg, error) } })\<close>, the body of \<^verbatim>\<open>notifySubscribers\<close> in both services
  (they differ in the message only).
\<close>

fun forEach_notify :: "string \<Rightarrow> callback list \<Rightarrow> jv \<Rightarrow> string \<Rightarrow> unit io" where
  "forEach_notify msg [] data type = ret ()"
| "forEach_notify msg (cb # cbs) data type =
     and_then (try_catch (invoke cb data type) (\<lambda>error. console_error msg))
       (\<lambda>_. forEach_notify msg cbs data type)"


text \<open>The requests sent, in order.\<close>

fun requests :: "event list \<Rightarrow> request list" where
  "requests [] = []"
| "requests (Sent rq # es) = rq # requests es"
| "requests (Invoked i d t # es) = requests es"



definition setTimeout :: "nat \<Rightarrow> unit io" where
  "setTimeout d w = (Inr (), w\<lparr>timers := timers w @ [d]\<rparr>)"

section \<open>ConfigManager\<close>




section \<open>DataSyncService\<close>

text \<open>
  The fields of a \<^verbatim>\<open>DataSyncService\<close>; \<open>submissionsHash\<close>, \<open>agentsHash\<close> and \<open>dataHash\<close> are
  the three entries of \<^verbatim>\<open>lastKnownState\<close>.  The class is declared twice in
  \<^verbatim>\<open>js/github-service.js\<close> and once more in the page script; the methods below read the same
  in all three.  The constructor is the first one; the later ones set the polling interval to
  3000, the token to \<^verbatim>\<open>null\<close>, and have no \<open>submissionsHash\<close>.
\<close>

record DataSyncService =
  ds_baseURL :: string
  ds_repoOwner :: string
  ds_repoName :: string
  ds_branch :: string
  ds_pollingInterval :: nat
  ds_isPolling :: bool
  submissionsHash :: jv
  agentsHash :: jv
  dataHash :: jv
  ds_subscribers :: "callback list"
  ds_token :: jv

definition new_DataSyncService :: DataSyncService where
  "new_DataSyncService =
     \<lparr>ds_baseURL = ''https://api.github.com'', ds_repoOwner = ''BarasaGodwilTech'',
      ds_repoName = ''Ezee-money'', ds_branch = ''main'', ds_pollingInterval = 5000,
      ds_isPolling = False, submissionsHash = Null, agentsHash = Null, dataHash = Null,
      ds_subscribers = [], ds_token = Undefined\<rparr>"


definition ds_contents_url :: "DataSyncService \<Rightarrow> string \<Rightarrow> string" where
  "ds_contents_url s filePath =
     ds_baseURL s @ ''/repos/'' @ ds_repoOwner s @ ''/'' @ ds_repoName s @ ''/contents/'' @ filePath"

definition ds_read_request :: "DataSyncService \<Rightarrow> string \<Rightarrow> request" where
  "ds_read_request s filePath =
     \<lparr>meth = GET, url = ds_contents_url s filePath @ ''?ref='' @ ds_branch s,
      auth = Some (ds_token s), body = None\<rparr>"

definition getFileSHA :: "DataSyncService \<Rightarrow> string \<Rightarrow> jv io" where
  "getFileSHA s filePath =
     try_catch
       (and_then (fetch (ds_read_request s filePath)) (\<lambda>response.
          if ok response then
            and_then (json response) (\<lambda>data. lift (get_prop data ''sha''))
          else ret Null))
       (\<lambda>error. ret Null)"

definition getFileContent :: "builtins \<Rightarrow> DataSyncService \<Rightarrow> string \<Rightarrow> jv io" where
  "getFileContent b s filePath =
     try_catch
       (and_then (fetch (ds_read_request s filePath)) (\<lambda>response.
          if \<not> ok response then
            (if status response = 404 then ret Null
             else throw (Error ''Failed to get file:''))
          else
            and_then (json response) (\<lambda>data.
            and_then (lift (get_prop data ''content'')) (\<lambda>c.
            and_then (lift_opt InvalidCharacterError (atob b c)) (\<lambda>content.
            lift_opt SyntaxError (JSON_parse b content))))))
       (\<lambda>error. and_then (console_error ''Error getting file:'') (\<lambda>_. ret Null))"

text \<open>
  The pre-write read of the three save operations: \<^verbatim>\<open>let sha = null; try { ...; if
  (response.ok) { const data = await response.json(); sha = data.sha } } catch (error) {}\<close>.
\<close>

definition read_sha :: "request \<Rightarrow> jv io" where
  "read_sha rq =
     try_catch
       (and_then (fetch rq) (\<lambda>response.
          if ok response then
            and_then (json response) (\<lambda>data. lift (get_prop data ''sha''))
          else ret Null))
       (\<lambda>error. ret Null)"

text \<open>\<^verbatim>\<open>btoa(unescape(encodeURIComponent(JSON.stringify(content, null, 2))))\<close>.\<close>

definition encode_json :: "builtins \<Rightarrow> jv \<Rightarrow> string io" where
  "encode_json b content =
     and_then (lift_opt URIError (utf8 b (JSON_stringify b content))) (\<lambda>u.
     lift_opt InvalidCharacterError (btoa b u))"

definition ds_write_request :: "builtins \<Rightarrow> DataSyncService \<Rightarrow> string \<Rightarrow> jv \<Rightarrow> string \<Rightarrow> jv \<Rightarrow> request" where
  "ds_write_request b s filePath message base64Content sha =
     \<lparr>meth = PUT, url = ds_contents_url s filePath, auth = Some (ds_token s),
      body = Some (JSON_stringify b (Obj [(''message'', message), (''content'', Str base64Content),
        (''branch'', Str (ds_branch s)), (''sha'', sha)]))\<rparr>"

definition saveFileContent :: "builtins \<Rightarrow> DataSyncService \<Rightarrow> string \<Rightarrow> jv \<Rightarrow> jv \<Rightarrow> jv io" where
  "saveFileContent b s filePath content message =
     try_catch
       (and_then (read_sha (ds_read_request s filePath)) (\<lambda>sha.
        and_then (encode_json b content) (\<lambda>base64Content.
        and_then (fetch (ds_write_request b s filePath message base64Content sha)) (\<lambda>response.
          if \<not> ok response then throw (Error ''Failed to save'')
          else json response))))
       (\<lambda>error. and_then (console_error ''Error saving file:'') (\<lambda>_. throw error))"

definition ds_subscribe :: "callback \<Rightarrow> DataSyncService \<Rightarrow> DataSyncService" where
  "ds_subscribe cb s = s\<lparr>ds_subscribers := ds_subscribers s @ [cb]\<rparr>"

text \<open>The function \<^verbatim>\<open>subscribe\<close> returns: it drops every registration of the callback.\<close>

definition ds_unsubscribe :: "callback \<Rightarrow> DataSyncService \<Rightarrow> DataSyncService" where
  "ds_unsubscribe cb s =
     s\<lparr>ds_subscribers := filter (\<lambda>sub. cb_id sub \<noteq> cb_id cb) (ds_subscribers s)\<rparr>"

definition ds_notifySubscribers :: "DataSyncService \<Rightarrow> jv \<Rightarrow> string \<Rightarrow> unit io" where
  "ds_notifySubscribers s data type = forEach_notify ''Subscriber error:'' (ds_subscribers s) data type"

text \<open>
  \<^verbatim>\<open>checkForChanges\<close>: the two blocks of its \<^verbatim>\<open>try\<close>, one per tracked file, and the method.
\<close>

definition check_data :: "builtins \<Rightarrow> (DataSyncService \<times> world, unit) op" where
  "check_data b =
     and_then (on_this (\<lambda>s. getFileSHA s ''data.json'')) (\<lambda>dataSHA.
     and_then get_this (\<lambda>s.
       if truthy dataSHA \<and> \<not> strict_eq dataSHA (dataHash s) then
         and_then (set_this (\<lambda>s. s\<lparr>dataHash := dataSHA\<rparr>)) (\<lambda>_.
         and_then (on_this (\<lambda>s. getFileContent b s ''data.json'')) (\<lambda>data.
         on_this (\<lambda>s. ds_notifySubscribers s data ''submissions_updated'')))
       else ret ()))"

definition check_agents :: "builtins \<Rightarrow> (DataSyncService \<times> world, unit) op" where
  "check_agents b =
     and_then (on_this (\<lambda>s. getFileSHA s ''agents.json'')) (\<lambda>agentsSHA.
     and_then get_this (\<lambda>s.
       if truthy agentsSHA \<and> \<not> strict_eq agentsSHA (agentsHash s) then
         and_then (set_this (\<lambda>s. s\<lparr>agentsHash := agentsSHA\<rparr>)) (\<lambda>_.
         and_then (on_this (\<lambda>s. getFileContent b s ''agents.json'')) (\<lambda>agents.
         on_this (\<lambda>s. ds_notifySubscribers s agents ''agents_updated'')))
       else ret ()))"

definition checkForChanges :: "builtins \<Rightarrow> (DataSyncService \<times> world, unit) op" where
  "checkForChanges b =
     try_catch
       (and_then (check_data b) (\<lambda>_. check_agents b))
       (\<lambda>error. on_this (\<lambda>s. console_error ''Change check error:''))"

section \<open>RealTimeService\<close>

text \<open>
  The fields of a \<^verbatim>\<open>RealTimeService\<close> as its constructor sets them; \<open>rt_token\<close> is what
  \<^verbatim>\<open>init\<close> has stored, \<^verbatim>\<open>undefined\<close> before.
\<close>

record RealTimeService =
  rt_baseURL :: string
  rt_repoOwner :: string
  rt_repoName :: string
  rt_branch :: string
  rt_pollingInterval :: nat
  lastKnownHash :: jv
  rt_isPolling :: bool
  rt_subscribers :: "callback list"
  rt_token :: jv

definition new_RealTimeService :: RealTimeService where
  "new_RealTimeService =
     \<lparr>rt_baseURL = ''https://api.github.com'', rt_repoOwner = ''BarasaGodwilTech'',
      rt_repoName = ''Ezee-money'', rt_branch = ''main'', rt_pollingInterval = 5000,
      lastKnownHash = Null, rt_isPolling = False, rt_subscribers = [], rt_token = Undefined\<rparr>"

definition rt_subscribe :: "callback \<Rightarrow> RealTimeService \<Rightarrow> RealTimeService" where
  "rt_subscribe cb s = s\<lparr>rt_subscribers := rt_subscribers s @ [cb]\<rparr>"

definition rt_unsubscribe :: "callback \<Rightarrow> RealTimeService \<Rightarrow> RealTimeService" where
  "rt_unsubscribe cb s =
     s\<lparr>rt_subscribers := filter (\<lambda>sub. cb_id sub \<noteq> cb_id cb) (rt_subscribers s)\<rparr>"

definition rt_notifySubscribers :: "RealTimeService \<Rightarrow> jv \<Rightarrow> string \<Rightarrow> unit io" where
  "rt_notifySubscribers s data type =
     forEach_notify ''Subscriber callback error:'' (rt_subscribers s) data type"

definition branch_request :: "RealTimeService \<Rightarrow> request" where
  "branch_request s =
     \<lparr>meth = GET,
      url = rt_baseURL s @ ''/repos/'' @ rt_repoOwner s @ ''/'' @ rt_repoName s
            @ ''/git/refs/heads/'' @ rt_branch s,
      auth = Some (rt_token s), body = None\<rparr>"

definition getBranchSHA :: "RealTimeService \<Rightarrow> jv io" where
  "getBranchSHA s =
     try_catch
       (and_then (fetch (branch_request s)) (\<lambda>response.
          if \<not> ok response then throw (Error ''Failed to get branch SHA:'')
          else
            and_then (json response) (\<lambda>data.
            and_then (lift (get_prop data ''object'')) (\<lambda>obj.
            lift (get_prop obj ''sha'')))))
       (\<lambda>error. and_then (console_error ''Error getting branch SHA:'') (\<lambda>_. ret Null))"

definition hasRepositoryChanged :: "(RealTimeService \<times> world, bool) op" where
  "hasRepositoryChanged =
     try_catch
       (and_then (on_this getBranchSHA) (\<lambda>currentSHA.
          if \<not> truthy currentSHA then ret False
          else
            and_then get_this (\<lambda>s.
              if truthy (lastKnownHash s) \<and> \<not> strict_eq currentSHA (lastKnownHash s) then
                and_then (set_this (\<lambda>s. s\<lparr>lastKnownHash := currentSHA\<rparr>)) (\<lambda>_. ret True)
              else
                and_then (set_this (\<lambda>s. s\<lparr>lastKnownHash := currentSHA\<rparr>)) (\<lambda>_. ret False))))
       (\<lambda>error.
          and_then (on_this (\<lambda>s. console_error ''Error checking repository changes:'')) (\<lambda>_.
          ret False))"

definition rt_contents_url :: "RealTimeService \<Rightarrow> string \<Rightarrow> string" where
  "rt_contents_url s filePath =
     rt_baseURL s @ ''/repos/'' @ rt_repoOwner s @ ''/'' @ rt_repoName s @ ''/contents/'' @ filePath"

definition rt_read_request :: "RealTimeService \<Rightarrow> string \<Rightarrow> request" where
  "rt_read_request s filePath =
     \<lparr>meth = GET, url = rt_contents_url s filePath @ ''?ref='' @ rt_branch s,
      auth = Some (rt_token s), body = None\<rparr>"

definition getFile :: "builtins \<Rightarrow> RealTimeService \<Rightarrow> string \<Rightarrow> jv io" where
  "getFile b s filePath =
     try_catch
       (and_then (fetch (rt_read_request s filePath)) (\<lambda>response.
          if \<not> ok response then
            (if status response = 404 then ret Null
             else throw (Error ''Failed to get file:''))
          else
            and_then (json response) (\<lambda>data.
            and_then (lift (get_prop data ''type'')) (\<lambda>ty.
              if strict_eq ty (Str ''file'') then
                and_then (lift (get_prop data ''content'')) (\<lambda>c.
                and_then (lift_opt InvalidCharacterError (atob b c)) (\<lambda>content.
                lift_opt SyntaxError (JSON_parse b content)))
              else ret Null))))
       (\<lambda>error. and_then (console_error ''Error getting file:'') (\<lambda>_. ret Null))"

text \<open>
  \<^verbatim>\<open>saveFile(filePath, content, message = 'Auto-save from Ezee Money System')\<close>: the body
  object gets its \<open>sha\<close> property only \<^verbatim>\<open>if (sha)\<close>; after a successful write the commit's
  SHA becomes \<open>lastKnownHash\<close>.
\<close>

definition rt_write_request :: "builtins \<Rightarrow> RealTimeService \<Rightarrow> string \<Rightarrow> jv \<Rightarrow> string \<Rightarrow> jv \<Rightarrow> request" where
  "rt_write_request b s filePath message base64Content sha =
     \<lparr>meth = PUT, url = rt_contents_url s filePath, auth = Some (rt_token s),
      body = Some (JSON_stringify b (Obj ([(''message'', message), (''content'', Str base64Content),
        (''branch'', Str (rt_branch s))] @ (if truthy sha then [(''sha'', sha)] else []))))\<rparr>"

definition saveFile :: "builtins \<Rightarrow> string \<Rightarrow> jv \<Rightarrow> jv \<Rightarrow> (RealTimeService \<times> world, jv) op" where
  "saveFile b filePath content message =
     try_catch
       (and_then (on_this (\<lambda>s. read_sha (rt_read_request s filePath))) (\<lambda>sha.
        and_then (on_this (\<lambda>s. encode_json b content)) (\<lambda>base64Content.
        and_then (on_this (\<lambda>s. fetch (rt_write_request b s filePath
                    (default_to message (Str ''Auto-save from Ezee Money System'')) base64Content sha))) (\<lambda>response.
          if \<not> ok response then
            and_then (on_this (\<lambda>s. json response)) (\<lambda>errorData.
            and_then (lift (get_prop errorData ''message'')) (\<lambda>m.
            throw (Error ''Failed to save file:'')))
          else
            and_then (on_this (\<lambda>s. json response)) (\<lambda>data.
            and_then (lift (get_prop data ''commit'')) (\<lambda>commit.
            and_then (lift (get_prop commit ''sha'')) (\<lambda>commit_sha.
            and_then (set_this (\<lambda>s. s\<lparr>lastKnownHash := commit_sha\<rparr>)) (\<lambda>_.
            and_then (lift (get_prop data ''content'')) (\<lambda>cnt.
            and_then (lift (get_prop cnt ''html_url'')) (\<lambda>html_url.
            ret (Obj [(''success'', Bool True), (''sha'', commit_sha), (''url'', html_url)])))))))))))
       (\<lambda>error. and_then (on_this (\<lambda>s. console_error ''Error saving file:'')) (\<lambda>_. throw error))"

text \<open>
  One run of the function \<^verbatim>\<open>poll\<close> of \<^verbatim>\<open>startRealTimePolling\<close>, up to and including the
  \<^verbatim>\<open>setTimeout\<close> that schedules the next run, and \<^verbatim>\<open>startRealTimePolling\<close> itself with its
  first run.
\<close>

definition poll_updates :: "builtins \<Rightarrow> (RealTimeService \<times> world, unit) op" where
  "poll_updates b =
     and_then hasRepositoryChanged (\<lambda>hasChanged.
       if hasChanged then
         and_then (on_this (\<lambda>s. getFile b s ''submissions.json'')) (\<lambda>submissions.
         and_then
           (if truthy submissions
            then on_this (\<lambda>s. rt_notifySubscribers s submissions ''submissions_updated'')
            else ret ()) (\<lambda>_.
         and_then (on_this (\<lambda>s. getFile b s ''agents.json'')) (\<lambda>agents.
           if truthy agents
           then on_this (\<lambda>s. rt_notifySubscribers s agents ''agents_updated'')
           else ret ())))
       else ret ())"

definition poll :: "builtins \<Rightarrow> (RealTimeService \<times> world, unit) op" where
  "poll b =
     and_then get_this (\<lambda>s.
       if \<not> rt_isPolling s then ret ()
       else
         and_then
           (try_catch (poll_updates b) (\<lambda>error. on_this (\<lambda>s. console_error ''Polling error:'')))
           (\<lambda>_. on_this (\<lambda>s. setTimeout (rt_pollingInterval s))))"

definition startRealTimePolling :: "builtins \<Rightarrow> (RealTimeService \<times> world, unit) op" where
  "startRealTimePolling b =
     and_then get_this (\<lambda>s.
       if rt_isPolling s then ret ()
       else and_then (set_this (\<lambda>s. s\<lparr>rt_isPolling := True\<rparr>)) (\<lambda>_. poll b))"

definition rt_getSubmissions :: "builtins \<Rightarrow> RealTimeService \<Rightarrow> jv io" where
  "rt_getSubmissions b s =
     try_catch
       (and_then (getFile b s ''submissions.json'') (\<lambda>data.
          ret (or_else (opt_prop data ''submissions'') (Arr []))))
       (\<lambda>error. and_then (console_error ''Error getting submissions:'') (\<lambda>_. ret (Arr [])))"

definition rt_getAgents :: "builtins \<Rightarrow> RealTimeService \<Rightarrow> jv io" where
  "rt_getAgents b s =
     try_catch
       (and_then (getFile b s ''agents.json'') (\<lambda>data.
          ret (or_else (opt_prop data ''agents'') (Arr []))))
       (\<lambda>error. and_then (console_error ''Error getting agents:'') (\<lambda>_. ret (Arr [])))"

section \<open>GitHubService\<close>

text \<open>
  A \<^verbatim>\<open>GitHubService\<close> holds the configuration object it loaded and the base URL.  After the
  completeness check the configuration is not \<^verbatim>\<open>null\<close>, so reading its properties for the
  URL and the header cannot throw: \<open>opt_prop\<close> reads them.
\<close>

record GitHubService =
  gh_config :: jv
  gh_baseURL :: string

definition config_incomplete :: "jv \<Rightarrow> ('s, bool) op" where
  "config_incomplete config =
     and_then (lift (get_prop config ''token'')) (\<lambda>token.
       if \<not> truthy token then ret True
       else
         and_then (lift (get_prop config ''repoOwner'')) (\<lambda>repoOwner.
           if \<not> truthy repoOwner then ret True
           else
             and_then (lift (get_prop config ''repoName'')) (\<lambda>repoName.
             ret (\<not> truthy repoName))))"

definition gh_contents_url :: "builtins \<Rightarrow> GitHubService \<Rightarrow> string \<Rightarrow> string" where
  "gh_contents_url b s filename =
     gh_baseURL s @ ''/repos/'' @ toString b (opt_prop (gh_config s) ''repoOwner'') @ ''/''
       @ toString b (opt_prop (gh_config s) ''repoName'') @ ''/contents/'' @ filename"

definition gh_read_request :: "builtins \<Rightarrow> GitHubService \<Rightarrow> string \<Rightarrow> request" where
  "gh_read_request b s filename =
     \<lparr>meth = GET, url = gh_contents_url b s filename,
      auth = Some (opt_prop (gh_config s) ''token''), body = None\<rparr>"

definition gh_write_request :: "builtins \<Rightarrow> GitHubService \<Rightarrow> string \<Rightarrow> jv \<Rightarrow> jv \<Rightarrow> jv \<Rightarrow> request" where
  "gh_write_request b s filename message content sha =
     \<lparr>meth = PUT, url = gh_contents_url b s filename,
      auth = Some (opt_prop (gh_config s) ''token''),
      body = Some (JSON_stringify b (Obj [(''message'', message), (''content'', content), (''sha'', sha)]))\<rparr>"

text \<open>\<^verbatim>\<open>uploadFile(filename, content, message = 'Upload file')\<close>.\<close>

definition uploadFile :: "builtins \<Rightarrow> GitHubService \<Rightarrow> string \<Rightarrow> jv \<Rightarrow> jv \<Rightarrow> jv io" where
  "uploadFile b s filename content message =
     and_then (config_incomplete (gh_config s)) (\<lambda>incomplete.
       if incomplete then throw (Error ''GitHub configuration is incomplete'')
       else
         try_catch
           (and_then (read_sha (gh_read_request b s filename)) (\<lambda>sha.
            and_then (fetch (gh_write_request b s filename (default_to message (Str ''Upload file''))
                        content sha)) (\<lambda>response.
              if \<not> ok response then
                and_then (json response) (\<lambda>errorData.
                and_then (lift (get_prop errorData ''message'')) (\<lambda>m.
                throw (Error ''Upload failed:'')))
              else json response)))
           (\<lambda>error. throw (Error ''File upload error:'')))"

definition readFile :: "builtins \<Rightarrow> GitHubService \<Rightarrow> string \<Rightarrow> jv io" where
  "readFile b s filename =
     and_then (config_incomplete (gh_config s)) (\<lambda>incomplete.
       if incomplete then throw (Error ''GitHub configuration is incomplete'')
       else
         try_catch
           (and_then (fetch (gh_read_request b s filename)) (\<lambda>response.
              if \<not> ok response then
                (if status response = 404 then ret Null
                 else throw (Error ''Read failed:''))
              else
                and_then (json response) (\<lambda>data.
                and_then (lift (get_prop data ''content'')) (\<lambda>c.
                  if truthy c then
                    try_catch
                      (and_then (lift_opt InvalidCharacterError (atob b c)) (\<lambda>text.
                       lift_opt SyntaxError (JSON_parse b text)))
                      (\<lambda>error.
                         and_then (lift_opt InvalidCharacterError (atob b c)) (\<lambda>text.
                         ret (Str text)))
                  else ret Null))))
           (\<lambda>error. throw (Error ''File read error:'')))"

text \<open>
  \<^verbatim>\<open>saveSubmission\<close>.  \<open>submissionData\<close> is the caller's object, as its property list.  The
  three readings of the clock (\<^verbatim>\<open>Date.now().toString()\<close> and two
  \<^verbatim>\<open>new Date().toISOString()\<close>) are inputs.  The new record is
  \<^verbatim>\<open>{ id: ..., ...submissionData, createdAt: ... }\<close>: an \<open>id\<close> of the caller's object
  replaces the generated one, and the generated \<open>createdAt\<close> replaces one of the caller's
  object.  The result's \<open>submissionId\<close> is \<^verbatim>\<open>newSubmission.id\<close>.
\<close>

definition existing_submissions :: "builtins \<Rightarrow> GitHubService \<Rightarrow> jv io" where
  "existing_submissions b s =
     try_catch
       (and_then (readFile b s ''submissions.json'') (\<lambda>existingData.
          if truthy existingData then
            and_then (lift (get_prop existingData ''submissions'')) (\<lambda>subs.
            ret (if truthy subs then subs else Arr []))
          else ret (Arr [])))
       (\<lambda>error. ret (Arr []))"

definition newSubmission :: "(string \<times> jv) list \<Rightarrow> string \<Rightarrow> string \<Rightarrow> jv" where
  "newSubmission submissionData now createdAt =
     Obj (set_prop (fold (\<lambda>(k, v) ps. set_prop ps k v) submissionData [(''id'', Str now)])
            ''createdAt'' (Str createdAt))"

fun js_length :: "jv \<Rightarrow> jv" where
  "js_length (Arr xs) = Num (int (length xs))"
| "js_length (Str s) = Num (int (length s))"
| "js_length v = Undefined"

definition saveSubmission ::
    "builtins \<Rightarrow> GitHubService \<Rightarrow> (string \<times> jv) list \<Rightarrow> string \<Rightarrow> string \<Rightarrow> string \<Rightarrow> jv io" where
  "saveSubmission b s submissionData now createdAt lastUpdated =
     try_catch
       (and_then (existing_submissions b s) (\<lambda>submissions.
        and_then (lift (push submissions (newSubmission submissionData now createdAt))) (\<lambda>submissions.
        and_then (lift_opt InvalidCharacterError
                    (btoa b (JSON_stringify b (Obj [(''submissions'', submissions),
                       (''lastUpdated'', Str lastUpdated),
                       (''totalSubmissions'', js_length submissions)])))) (\<lambda>content.
        and_then (lift (get_prop (Obj submissionData) ''agentInfo'')) (\<lambda>agentInfo.
        and_then (lift (get_prop agentInfo ''fullName'')) (\<lambda>fullName.
        and_then (uploadFile b s ''submissions.json'' (Str content)
                    (Str (''New submission from '' @ toString b fullName))) (\<lambda>result.
        and_then (lift (get_prop result ''content'')) (\<lambda>c.
        and_then (lift (get_prop c ''download_url'')) (\<lambda>download_url.
        ret (Obj [(''success'', Bool True),
                  (''submissionId'', opt_prop (newSubmission submissionData now createdAt) ''id''),
                  (''downloadUrl'', download_url)]))))))))))
       (\<lambda>error. throw (Error ''Failed to save submission:''))"

section \<open>EnhancedSubmissionHandler\<close>





text \<open>
  What the handler reads from the clock and the random generator during one submission:
  the submission's id, its date, the timestamp of the image names, and the two
  \<^verbatim>\<open>lastUpdated\<close> stamps of \<^verbatim>\<open>saveToDataFile\<close>.
\<close>

record stamps =
  new_id :: string
  submissionDate :: string
  timestamp :: string
  initial_lastUpdated :: string
  final_lastUpdated :: string












text \<open>
  Assignment \<^verbatim>\<open>o.k = v\<close> in a class body (strict code): a \<^verbatim>\<open>TypeError\<close> unless \<open>o\<close> is an
  object.  (An array would take the property; none reaches an assignment here, since the
  statement before needs \<open>o\<close> to have an \<open>agents\<close> array.)
\<close>

fun assign :: "jv \<Rightarrow> string \<Rightarrow> jv \<Rightarrow> exn + jv" where
  "assign (Obj ps) k v = Inr (Obj (set_prop ps k v))"
| "assign o' k v = Inl TypeError"

definition data_json_url :: string where
  "data_json_url = ''https://api.github.com/repos/BarasaGodwilTech/Ezee-money/contents/data.json''"

text \<open>The \<^verbatim>\<open>PUT\<close> of \<open>data.json\<close>; \<open>fullName\<close> is \<^verbatim>\<open>submission.fullName\<close>.\<close>

definition data_write_request :: "builtins \<Rightarrow> jv \<Rightarrow> jv \<Rightarrow> string \<Rightarrow> jv \<Rightarrow> request" where
  "data_write_request b token fullName base64Content sha =
     \<lparr>meth = PUT, url = data_json_url, auth = Some token,
      body = Some (JSON_stringify b (Obj [
        (''message'', Str (''Add new submission from '' @ toString b fullName)),
        (''content'', Str base64Content), (''branch'', Str ''main''), (''sha'', sha)]))\<rparr>"

text \<open>
  \<^verbatim>\<open>saveToDataFile\<close>, in three parts.  \<open>current_data\<close> is what the method holds in
  \<^verbatim>\<open>submissions\<close> and \<^verbatim>\<open>sha\<close> after its read: the parsed file and its SHA when the response is
  ok, the initial empty document and \<^verbatim>\<open>null\<close> otherwise.  \<open>add_submission\<close> is
  \<^verbatim>\<open>submissions.agents.push(submission); submissions.lastUpdated = ...\<close>.
\<close>

definition current_data :: "builtins \<Rightarrow> stamps \<Rightarrow> response \<Rightarrow> (jv \<times> jv) io" where
  "current_data b st response =
     (if ok response then
        and_then (json response) (\<lambda>data.
        and_then (lift (get_prop data ''content'')) (\<lambda>c.
        and_then (lift_opt InvalidCharacterError (atob b c)) (\<lambda>text.
        and_then (lift_opt SyntaxError (JSON_parse b text)) (\<lambda>submissions.
        and_then (lift (get_prop data ''sha'')) (\<lambda>sha.
        ret (submissions, sha))))))
      else
        ret (Obj [(''agents'', Arr []), (''lastUpdated'', Str (initial_lastUpdated st))], Null))"

definition add_submission :: "jv \<Rightarrow> jv \<Rightarrow> stamps \<Rightarrow> exn + jv" where
  "add_submission submissions submission st =
     (case get_prop submissions ''agents'' of
        Inl e \<Rightarrow> Inl e
      | Inr agents \<Rightarrow>
          (case push agents submission of
             Inl e \<Rightarrow> Inl e
           | Inr agents' \<Rightarrow>
               (case assign submissions ''agents'' agents' of
                  Inl e \<Rightarrow> Inl e
                | Inr submissions' \<Rightarrow>
                    assign submissions' ''lastUpdated'' (Str (final_lastUpdated st)))))"

definition saveToDataFile :: "builtins \<Rightarrow> jv \<Rightarrow> jv \<Rightarrow> stamps \<Rightarrow> unit io" where
  "saveToDataFile b submission token st =
     try_catch
       (and_then (fetch \<lparr>meth = GET, url = data_json_url, auth = Some token, body = None\<rparr>) (\<lambda>response.
        and_then (current_data b st response) (\<lambda>(submissions, sha).
        and_then (lift (add_submission submissions submission st)) (\<lambda>submissions.
        and_then (encode_json b submissions) (\<lambda>base64Content.
        and_then (lift (get_prop submission ''fullName'')) (\<lambda>fullName.
        and_then (fetch (data_write_request b token fullName base64Content sha)) (\<lambda>saveResponse.
          if \<not> ok saveResponse then
            and_then (json saveResponse) (\<lambda>error.
            and_then (lift (get_prop error ''message'')) (\<lambda>m.
            throw (Error ''Failed to save to data.json:'')))
          else ret ())))))))
       (\<lambda>error. and_then (console_error ''Error saving to data.json:'') (\<lambda>_. throw error))"


section \<open>FieldAgentLoginHandler\<close>






section \<open>Sample values\<close>

text \<open>
  Concrete callbacks, worlds and built-ins on which the theorems below are instantiated.
  The sample built-ins decode a string to itself, parse the texts of a small table and
  lower the case of the ASCII letters.
\<close>

definition quiet :: "nat \<Rightarrow> callback" where
  "quiet i = \<lparr>cb_id = i, cb_run = (\<lambda>data type. None)\<rparr>"

definition failing :: "nat \<Rightarrow> callback" where
  "failing i = \<lparr>cb_id = i, cb_run = (\<lambda>data type. Some TypeError)\<rparr>"

definition world_of :: "response option list \<Rightarrow> world" where
  "world_of rs = \<lparr>replies = rs, trace = [], console = [], localStorage = Map.empty, timers = []\<rparr>"

definition sample_documents :: "(string \<times> jv) list" where
  "sample_documents =
     [(''config'', Obj [(''token'', Str ''t0'')]),
      (''agents'', Obj [(''agents'', Arr [
         Obj [(''scCode'', Str ''SC1''), (''fullName'', Str ''Ann''), (''password'', Str ''pw''),
              (''status'', Str ''active'')]])]),
      (''data'', Obj [(''agents'', Arr [Obj [(''id'', Str ''A1'')]]), (''lastUpdated'', Str ''d0'')]),
      (''submissions'', Obj [(''submissions'', Arr [Obj [(''id'', Str ''1'')]])]),
      (''agents with a draft'', Obj [(''agents'', Arr [
         Obj [(''fullName'', Str ''Bob''), (''status'', Str ''draft'')],
         Obj [(''scCode'', Str ''SC1''), (''fullName'', Str ''Ann''), (''password'', Str ''pw''),
              (''status'', Str ''active'')]])])]"

definition ascii_lower :: "char \<Rightarrow> char" where
  "ascii_lower c =
     (case map_of (zip ''ABCDEFGHIJKLMNOPQRSTUVWXYZ'' ''abcdefghijklmnopqrstuvwxyz'') c of
        None \<Rightarrow> c | Some l \<Rightarrow> l)"

text \<open>
  The sample serializer writes a value out in full: numbers in decimal, a string between
  \<open><\<close> and \<open>>\<close>, the elements of an array and the properties of an object separated by
  commas; as \<^verbatim>\<open>JSON.stringify\<close> does, it leaves out a property whose value is
  \<^verbatim>\<open>undefined\<close>.
\<close>

fun show_nat :: "nat \<Rightarrow> string" where
  "show_nat n =
     (if n < 10 then [''0123456789'' ! n]
      else show_nat (n div 10) @ [''0123456789'' ! (n mod 10)])"

fun commas :: "string list \<Rightarrow> string" where
  "commas [] = []"
| "commas [x] = x"
| "commas (x # y # zs) = x @ '','' @ commas (y # zs)"

fun show_json :: "jv \<Rightarrow> string" where
  "show_json Undefined = ''null''"
| "show_json Null = ''null''"
| "show_json (Bool b) = (if b then ''true'' else ''false'')"
| "show_json (Num n) = (if n < 0 then ''-'' @ show_nat (nat (- n)) else show_nat (nat n))"
| "show_json (Str s) = ''<'' @ s @ ''>''"
| "show_json (Arr xs) = ''['' @ commas (map show_json xs) @ '']''"
| "show_json (Obj ps) =
     ''{'' @ commas (map (\<lambda>(k, v). k @ '':'' @ show_json v) (filter (\<lambda>(k, v). v \<noteq> Undefined) ps))
       @ ''}''"

definition sample_builtins :: builtins where
  "sample_builtins =
     \<lparr>atob = (\<lambda>v. case v of Str s \<Rightarrow> Some s | _ \<Rightarrow> None),
      btoa = Some,
      utf8 = Some,
      JSON_parse = map_of sample_documents,
      JSON_stringify = show_json,
      toLowerCase = map ascii_lower,
      toString = (\<lambda>v. case v of Str s \<Rightarrow> s | _ \<Rightarrow> ''value'')\<rparr>"

text \<open>The document of a response for an existing file with the given SHA and encoded content.\<close>

definition file_document :: "string \<Rightarrow> string \<Rightarrow> jv" where
  "file_document sha content = Obj [(''type'', Str ''file''), (''sha'', Str sha), (''content'', Str content)]"

text \<open>A sync service with two subscribers, and a world where \<open>data.json\<close> exists and \<open>agents.json\<close> does not.\<close>

definition sample_sync :: DataSyncService where
  "sample_sync = new_DataSyncService\<lparr>ds_subscribers := [quiet 1, failing 2], ds_token := Str ''t0''\<rparr>"

definition sample_sync_world :: world where
  "sample_sync_world =
     world_of [Some (Response 200 (Some (file_document ''sha1'' ''data''))),
               Some (Response 200 (Some (file_document ''sha1'' ''data''))),
               Some (Response 404 None)]"

text \<open>
  A polling real-time service with one subscriber.  In the first world the branch head, both
  files and a spare reply are there; in the second \<open>submissions.json\<close> is missing.
\<close>

definition sample_rt :: RealTimeService where
  "sample_rt = new_RealTimeService\<lparr>rt_isPolling := True, rt_subscribers := [quiet 1],
     rt_token := Str ''t0''\<rparr>"

definition branch_document :: "string \<Rightarrow> jv" where
  "branch_document sha = Obj [(''ref'', Str ''refs/heads/main''), (''object'', Obj [(''sha'', Str sha)])]"

definition sample_rt_world :: world where
  "sample_rt_world =
     world_of [Some (Response 200 (Some (branch_document ''abc''))),
               Some (Response 200 (Some (file_document ''s1'' ''submissions''))),
               Some (Response 200 (Some (file_document ''s2'' ''agents'')))]"

definition sample_rt_world_missing :: world where
  "sample_rt_world_missing =
     world_of [Some (Response 200 (Some (branch_document ''abc''))),
               Some (Response 404 None),
               Some (Response 200 (Some (file_document ''s2'' ''agents'')))]"

text \<open>A configured \<^verbatim>\<open>GitHubService\<close>, and worlds for a write over an existing file and for a first write.\<close>

definition sample_gh :: GitHubService where
  "sample_gh =
     \<lparr>gh_config = Obj [(''token'', Str ''t0''), (''repoOwner'', Str ''BarasaGodwilTech''),
        (''repoName'', Str ''Ezee-money'')],
      gh_baseURL = ''https://api.github.com''\<rparr>"

definition write_reply :: jv where
  "write_reply = Obj [(''content'', Obj [(''html_url'', Str ''h''), (''download_url'', Str ''u'')]),
     (''commit'', Obj [(''sha'', Str ''c1'')])]"

definition overwrite_world :: world where
  "overwrite_world =
     world_of [Some (Response 200 (Some (file_document ''sha1'' ''data''))),
               Some (Response 200 (Some write_reply))]"

definition create_world :: world where
  "create_world = world_of [Some (Response 404 None), Some (Response 201 (Some write_reply))]"

text \<open>Worlds for saving a submission over existing files, and what the handler reads from the clock.\<close>

definition sample_stamps :: stamps where
  "sample_stamps = \<lparr>new_id = ''AGENT-1-abc'', submissionDate = ''d1'', timestamp = ''1'',
     initial_lastUpdated = ''d2'', final_lastUpdated = ''d3''\<rparr>"

definition submissions_world :: world where
  "submissions_world =
     world_of [Some (Response 200 (Some (file_document ''s1'' ''submissions''))),
               Some (Response 200 (Some (file_document ''s1'' ''submissions''))),
               Some (Response 200 (Some write_reply))]"

text \<open>A world where \<open>submissions.json\<close> does not exist yet: both reads find nothing.\<close>

definition first_submission_world :: world where
  "first_submission_world =
     world_of [Some (Response 404 None), Some (Response 404 None),
               Some (Response 201 (Some write_reply))]"

text \<open>
  The next request fails: it gets no response, or a response that is not ok; and the same
  with the status 404 (the file is absent) left out.
\<close>

definition next_fails :: "response option list \<Rightarrow> bool" where
  "next_fails rs = (case rs of [] \<Rightarrow> True | None # _ \<Rightarrow> True | Some r # _ \<Rightarrow> \<not> ok r)"

definition next_fails_not_absent :: "response option list \<Rightarrow> bool" where
  "next_fails_not_absent rs =
     (case rs of [] \<Rightarrow> True | None # _ \<Rightarrow> True | Some r # _ \<Rightarrow> \<not> ok r \<and> status r \<noteq> 404)"

section \<open>The login rule in the words of its description\<close>










section \<open>Running operations\<close>

lemmas op_defs = ret_def throw_def lift_def and_then_def try_catch_def lift_opt_def
  get_this_def set_this_def on_this_def console_error_def json_def

lemmas sample_defs = quiet_def failing_def world_of_def sample_builtins_def sample_documents_def
  file_document_def

text \<open>The definitions a run on sample values unfolds, by service.\<close>

lemmas net_defs = fetch_def ok_def invoke_def

lemmas ds_defs = new_DataSyncService_def ds_contents_url_def ds_read_request_def getFileSHA_def
  getFileContent_def ds_notifySubscribers_def check_data_def check_agents_def checkForChanges_def
  sample_sync_def sample_sync_world_def

lemmas rt_defs = new_RealTimeService_def branch_request_def rt_contents_url_def rt_read_request_def
  getBranchSHA_def hasRepositoryChanged_def getFile_def rt_notifySubscribers_def poll_updates_def
  poll_def setTimeout_def sample_rt_def branch_document_def sample_rt_world_def
  sample_rt_world_missing_def

lemmas save_defs = read_sha_def encode_json_def ds_write_request_def saveFileContent_def
  rt_write_request_def saveFile_def config_incomplete_def gh_contents_url_def gh_read_request_def
  gh_write_request_def uploadFile_def sample_gh_def write_reply_def overwrite_world_def
  create_world_def

lemmas submission_defs = readFile_def existing_submissions_def newSubmission_def saveSubmission_def
  current_data_def add_submission_def data_json_url_def data_write_request_def saveToDataFile_def
  sample_stamps_def submissions_world_def



text \<open>A request consumes one reply, whatever it is, and enters the trace.\<close>

lemma fetch_eq:
  "fetch rq w =
     ((case replies w of [] \<Rightarrow> Inl FetchFailed | None # rs \<Rightarrow> Inl FetchFailed | Some x # rs \<Rightarrow> Inr x),
      w\<lparr>replies := tl (replies w), trace := trace w @ [Sent rq]\<rparr>)"
  by (cases w) (auto simp: fetch_def split: list.splits option.splits)



lemma requests_append: "requests (es @ fs) = requests es @ requests fs"
  by (induction es rule: requests.induct) simp_all

lemma requests_Invoked: "requests (map (\<lambda>cb. Invoked (cb_id cb) d t) cbs) = []"
  by (induction cbs) simp_all

text \<open>Notifying is one guarded call per subscriber; it only extends the trace and the console.\<close>

lemma guarded_invoke:
  "try_catch (invoke cb d t) (\<lambda>error. console_error msg) w =
     (Inr (), w\<lparr>trace := trace w @ [Invoked (cb_id cb) d t],
               console := console w @ (case cb_run cb d t of None \<Rightarrow> [] | Some e \<Rightarrow> [msg])\<rparr>)"
  by (simp add: try_catch_def invoke_def console_error_def split: option.splits)

lemma forEach_notify_eq:
  "forEach_notify msg cbs d t w =
     (Inr (), w\<lparr>trace := trace w @ map (\<lambda>cb. Invoked (cb_id cb) d t) cbs,
               console := console w
                 @ concat (map (\<lambda>cb. case cb_run cb d t of None \<Rightarrow> [] | Some e \<Rightarrow> [msg]) cbs)\<rparr>)"
proof (induction cbs arbitrary: w)
  case Nil
  show ?case by (simp add: ret_def)
next
  case (Cons cb cbs)
  show ?case by (simp add: and_then_def guarded_invoke Cons.IH)
qed

text \<open>The reads that end every failure in their \<^verbatim>\<open>catch\<close> never throw; they consume one reply.\<close>

lemma getFileContent_runs:
  "\<exists>v c. getFileContent b s p w =
     (Inr v, w\<lparr>replies := tl (replies w), trace := trace w @ [Sent (ds_read_request s p)],
              console := console w @ c\<rparr>)"
proof -
  have quiet: "w\<lparr>replies := r, trace := t\<rparr> = w\<lparr>replies := r, trace := t, console := console w @ []\<rparr>"
    for r t
    by simp
  show ?thesis
    unfolding getFileContent_def op_defs fetch_eq
    by (auto split: list.splits option.splits sum.splits intro: quiet)
qed

lemma getFile_runs:
  "\<exists>v c. getFile b s p w =
     (Inr v, w\<lparr>replies := tl (replies w), trace := trace w @ [Sent (rt_read_request s p)],
              console := console w @ c\<rparr>)"
proof -
  have quiet: "w\<lparr>replies := r, trace := t\<rparr> = w\<lparr>replies := r, trace := t, console := console w @ []\<rparr>"
    for r t
    by simp
  show ?thesis
    unfolding getFile_def op_defs fetch_eq
    by (auto split: list.splits option.splits sum.splits intro: quiet)
qed

lemma read_sha_runs:
  "\<exists>v. read_sha rq w = (Inr v, w\<lparr>replies := tl (replies w), trace := trace w @ [Sent rq]\<rparr>)"
  by (auto simp: read_sha_def op_defs fetch_eq split: list.splits option.splits sum.splits)

text \<open>The configuration check of \<^verbatim>\<open>GitHubService\<close> reads no state; when it fails nothing is sent.\<close>

lemma config_incomplete_pure:
  "fst (config_incomplete config w) = r \<Longrightarrow> config_incomplete config w = (r, w)"
  by (auto simp: config_incomplete_def op_defs split: sum.splits if_splits)

lemma uploadFile_requests:
  assumes "fst (config_incomplete (gh_config g) w) = Inr False"
      and "fst (read_sha (gh_read_request b g filename) w) = Inr sha"
  shows "requests (trace (snd (uploadFile b g filename content message w))) =
           requests (trace w) @ [gh_read_request b g filename,
             gh_write_request b g filename (default_to message (Str ''Upload file'')) content sha]"
proof -
  obtain v where r: "read_sha (gh_read_request b g filename) w =
      (Inr v, w\<lparr>replies := tl (replies w), trace := trace w @ [Sent (gh_read_request b g filename)]\<rparr>)"
    using read_sha_runs by blast
  then have v: "v = sha"
    using assms by simp
  have c: "config_incomplete (gh_config g) w = (Inr False, w)"
    using assms(1) by (rule config_incomplete_pure)
  show ?thesis
    using r v c
    by (auto simp: uploadFile_def op_defs fetch_eq requests_append
        split: list.splits option.splits sum.splits)
qed

lemma readFile_incomplete:
  assumes "fst (config_incomplete (gh_config g) w) \<noteq> Inr False"
  shows "\<exists>e. readFile b g f w = (Inl e, w)"
  using assms
  by (auto simp: readFile_def config_incomplete_def op_defs split: sum.splits if_splits)

lemma uploadFile_incomplete:
  assumes "fst (config_incomplete (gh_config g) w) \<noteq> Inr False"
  shows "\<exists>e. uploadFile b g f c m w = (Inl e, w)"
  using assms
  by (auto simp: uploadFile_def config_incomplete_def op_defs split: sum.splits if_splits)

section \<open>Notification of subscribers\<close>

lemma fold_ds_subscribe: "ds_subscribers (fold ds_subscribe cbs s) = ds_subscribers s @ cbs"
  by (induction cbs arbitrary: s) (simp_all add: ds_subscribe_def)

lemma fold_rt_subscribe: "rt_subscribers (fold rt_subscribe cbs s) = rt_subscribers s @ cbs"
  by (induction cbs arbitrary: s) (simp_all add: rt_subscribe_def)

text \<open>
  Claim C5.  Whatever callbacks \<open>cbs\<close> have been registered, in that order, by calls of
  \<^verbatim>\<open>subscribe\<close> on a new service, \<^verbatim>\<open>notifySubscribers(data, type)\<close> adds to the trace exactly
  one invocation per registration, with the arguments \<open>(data, type)\<close>, in the order of
  registration, and nothing else; each call has returned or thrown before the next starts,
  the operation being sequential.  This holds for \<^verbatim>\<open>DataSyncService\<close> and for
  \<^verbatim>\<open>RealTimeService\<close>.
\<close>

theorem notifySubscribers_registration_order:
  "trace (snd (ds_notifySubscribers (fold ds_subscribe cbs new_DataSyncService) data type w)) =
     trace w @ map (\<lambda>cb. Invoked (cb_id cb) data type) cbs \<and>
   trace (snd (rt_notifySubscribers (fold rt_subscribe cbs new_RealTimeService) data type w)) =
     trace w @ map (\<lambda>cb. Invoked (cb_id cb) data type) cbs"
  by (simp add: ds_notifySubscribers_def rt_notifySubscribers_def forEach_notify_eq
      fold_ds_subscribe fold_rt_subscribe new_DataSyncService_def new_RealTimeService_def)

theorem notifySubscribers_registration_order_witness:
  "trace (snd (ds_notifySubscribers (fold ds_subscribe [quiet 7, failing 3, quiet 7] new_DataSyncService)
      (Str ''d'') ''agents_updated'' (world_of []))) =
     [Invoked 7 (Str ''d'') ''agents_updated'', Invoked 3 (Str ''d'') ''agents_updated'',
      Invoked 7 (Str ''d'') ''agents_updated''] \<and>
   trace (snd (rt_notifySubscribers (fold rt_subscribe [quiet 7, failing 3, quiet 7] new_RealTimeService)
      (Str ''d'') ''agents_updated'' (world_of []))) =
     [Invoked 7 (Str ''d'') ''agents_updated'', Invoked 3 (Str ''d'') ''agents_updated'',
      Invoked 7 (Str ''d'') ''agents_updated'']"
  using notifySubscribers_registration_order
    [of "[quiet 7, failing 3, quiet 7]" "Str ''d''" "''agents_updated''" "world_of []"]
  by (simp add: quiet_def failing_def world_of_def)

text \<open>
  Claim C8.  If the \<open>i\<close>-th registered callback throws, \<^verbatim>\<open>notifySubscribers\<close> still returns
  normally, the error is logged, and every callback registered after it is invoked with the
  same \<open>(data, type)\<close>: the invocations from the \<open>i\<close>-th on are those of the registrations
  from the \<open>i\<close>-th on.  Whatever the callbacks do, the operation never throws.  This holds
  for both services.
\<close>

theorem notifySubscribers_survives_throwing_callback:
  assumes "i < length cbs" and "cb_run (cbs ! i) data type = Some e"
  shows "fst (ds_notifySubscribers (s\<lparr>ds_subscribers := cbs\<rparr>) data type w) = Inr () \<and>
         drop (length (trace w) + i)
           (trace (snd (ds_notifySubscribers (s\<lparr>ds_subscribers := cbs\<rparr>) data type w))) =
           map (\<lambda>cb. Invoked (cb_id cb) data type) (drop i cbs) \<and>
         ''Subscriber error:'' \<in>
           set (console (snd (ds_notifySubscribers (s\<lparr>ds_subscribers := cbs\<rparr>) data type w))) \<and>
         fst (rt_notifySubscribers (r\<lparr>rt_subscribers := cbs\<rparr>) data type w) = Inr () \<and>
         drop (length (trace w) + i)
           (trace (snd (rt_notifySubscribers (r\<lparr>rt_subscribers := cbs\<rparr>) data type w))) =
           map (\<lambda>cb. Invoked (cb_id cb) data type) (drop i cbs) \<and>
         ''Subscriber callback error:'' \<in>
           set (console (snd (rt_notifySubscribers (r\<lparr>rt_subscribers := cbs\<rparr>) data type w)))"
proof -
  have "cbs ! i \<in> set cbs"
    using assms(1) by simp
  then have logged: "msg \<in> set (concat (map (\<lambda>cb. case cb_run cb data type of None \<Rightarrow> []
      | Some e \<Rightarrow> [msg]) cbs))" for msg :: string
    using assms(2) by (force split: option.splits)
  show ?thesis
    using logged [of "''Subscriber error:''"] logged [of "''Subscriber callback error:''"]
    by (simp add: ds_notifySubscribers_def rt_notifySubscribers_def forEach_notify_eq drop_map)
qed

theorem notifySubscribers_survives_throwing_callback_witness:
  "fst (ds_notifySubscribers (new_DataSyncService\<lparr>ds_subscribers := [quiet 1, failing 2, quiet 3]\<rparr>)
      Null ''agents_updated'' (world_of [])) = Inr () \<and>
   drop 1 (trace (snd (ds_notifySubscribers
      (new_DataSyncService\<lparr>ds_subscribers := [quiet 1, failing 2, quiet 3]\<rparr>)
      Null ''agents_updated'' (world_of [])))) =
     [Invoked 2 Null ''agents_updated'', Invoked 3 Null ''agents_updated''] \<and>
   fst (rt_notifySubscribers (new_RealTimeService\<lparr>rt_subscribers := [quiet 1, failing 2, quiet 3]\<rparr>)
      Null ''agents_updated'' (world_of [])) = Inr () \<and>
   drop 1 (trace (snd (rt_notifySubscribers
      (new_RealTimeService\<lparr>rt_subscribers := [quiet 1, failing 2, quiet 3]\<rparr>)
      Null ''agents_updated'' (world_of [])))) =
     [Invoked 2 Null ''agents_updated'', Invoked 3 Null ''agents_updated'']"
  using notifySubscribers_survives_throwing_callback
    [of 1 "[quiet 1, failing 2, quiet 3]" Null "''agents_updated''" TypeError
        new_DataSyncService "world_of []" new_RealTimeService]
  by (simp add: quiet_def failing_def world_of_def)

section \<open>Change detection in DataSyncService\<close>












section \<open>The polling loop of RealTimeService\<close>










section \<open>The version token of a write\<close>

text \<open>What the pre-write read returns, on an existing file and on an absent one.\<close>

lemma read_sha_existing:
  assumes "replies w = Some (Response st (Some (Obj ps))) # rs" and "200 \<le> st" and "st \<le> 299"
      and "map_of ps ''sha'' = Some v"
  shows "fst (read_sha rq w) = Inr v"
  using assms by (simp add: read_sha_def op_defs fetch_eq ok_def)

lemma read_sha_absent:
  assumes "replies w = Some (Response 404 p) # rs"
  shows "fst (read_sha rq w) = Inr Null"
  using assms by (simp add: read_sha_def op_defs fetch_eq ok_def)

lemma saveFileContent_requests:
  assumes "fst (read_sha (ds_read_request s path) w) = Inr sha"
  shows "requests (trace (snd (saveFileContent b s path content message w))) =
           requests (trace w) @ ds_read_request s path #
             (case Option.bind (utf8 b (JSON_stringify b content)) (btoa b) of
                None \<Rightarrow> [] | Some c \<Rightarrow> [ds_write_request b s path message c sha])"
proof -
  obtain v where r: "read_sha (ds_read_request s path) w =
      (Inr v, w\<lparr>replies := tl (replies w), trace := trace w @ [Sent (ds_read_request s path)]\<rparr>)"
    using read_sha_runs by blast
  then have "v = sha"
    using assms by simp
  then show ?thesis
    using r
    by (auto simp: saveFileContent_def encode_json_def op_defs fetch_eq requests_append
        split: list.splits option.splits sum.splits)
qed

lemma saveFile_requests:
  assumes "fst (read_sha (rt_read_request r path) w) = Inr sha"
  shows "requests (trace (snd (snd (saveFile b path content message (r, w))))) =
           requests (trace w) @ rt_read_request r path #
             (case Option.bind (utf8 b (JSON_stringify b content)) (btoa b) of
                None \<Rightarrow> []
              | Some c \<Rightarrow> [rt_write_request b r path
                  (default_to message (Str ''Auto-save from Ezee Money System'')) c sha])"
proof -
  obtain v where r: "read_sha (rt_read_request r path) w =
      (Inr v, w\<lparr>replies := tl (replies w), trace := trace w @ [Sent (rt_read_request r path)]\<rparr>)"
    using read_sha_runs by blast
  then have "v = sha"
    using assms by simp
  then show ?thesis
    using r
    by (auto simp: saveFile_def encode_json_def op_defs fetch_eq requests_append
        split: list.splits option.splits sum.splits)
qed

text \<open>
  Claim C3.  For each of the three save operations, let \<open>sha\<close> be what the pre-write read
  returns: the \<^verbatim>\<open>GET\<close> of the target path in the service's repository, on its branch for
  \<^verbatim>\<open>DataSyncService.saveFileContent\<close> and \<^verbatim>\<open>RealTimeService.saveFile\<close>, with the service's
  token.  Then the operation sends that \<^verbatim>\<open>GET\<close> first and the \<^verbatim>\<open>PUT\<close> to the same path
  right after it, and nothing else (\<^verbatim>\<open>saveFileContent\<close> and \<^verbatim>\<open>saveFile\<close> send no \<^verbatim>\<open>PUT\<close>
  when encoding the content throws; \<^verbatim>\<open>GitHubService.uploadFile\<close> sends the two once its
  configuration is complete).  The body of the \<^verbatim>\<open>PUT\<close> is the serialized object with the
  message (the default text when none is given), the content, the branch, and \<open>sha\<close>:
  \<^verbatim>\<open>saveFileContent\<close> and \<^verbatim>\<open>uploadFile\<close> always write the property \<open>sha\<close>, which is null
  when the read found no file, and \<^verbatim>\<open>saveFile\<close> writes it only when \<open>sha\<close> is truthy.  The
  read returns the \<open>sha\<close> property of the document of an ok response, and \<^verbatim>\<open>null\<close> when the
  file is absent (404).
\<close>

theorem writes_carry_freshly_read_token:
  assumes ds: "fst (read_sha
                 \<lparr>meth = GET,
                  url = ds_baseURL s @ ''/repos/'' @ ds_repoOwner s @ ''/'' @ ds_repoName s
                        @ ''/contents/'' @ path @ ''?ref='' @ ds_branch s,
                  auth = Some (ds_token s), body = None\<rparr> w) = Inr sha"
      and rt: "fst (read_sha
                 \<lparr>meth = GET,
                  url = rt_baseURL r @ ''/repos/'' @ rt_repoOwner r @ ''/'' @ rt_repoName r
                        @ ''/contents/'' @ path' @ ''?ref='' @ rt_branch r,
                  auth = Some (rt_token r), body = None\<rparr> w') = Inr sha'"
      and gc: "fst (config_incomplete (gh_config g) w'') = Inr False"
      and gh: "fst (read_sha
                 \<lparr>meth = GET,
                  url = gh_baseURL g @ ''/repos/'' @ toString b (opt_prop (gh_config g) ''repoOwner'')
                        @ ''/'' @ toString b (opt_prop (gh_config g) ''repoName'')
                        @ ''/contents/'' @ filename,
                  auth = Some (opt_prop (gh_config g) ''token''), body = None\<rparr> w'') = Inr sha''"
  shows "requests (trace (snd (saveFileContent b s path content message w))) =
           requests (trace w) @
             \<lparr>meth = GET,
              url = ds_baseURL s @ ''/repos/'' @ ds_repoOwner s @ ''/'' @ ds_repoName s
                    @ ''/contents/'' @ path @ ''?ref='' @ ds_branch s,
              auth = Some (ds_token s), body = None\<rparr> #
             (case Option.bind (utf8 b (JSON_stringify b content)) (btoa b) of
                None \<Rightarrow> []
              | Some c \<Rightarrow>
                  [\<lparr>meth = PUT,
                    url = ds_baseURL s @ ''/repos/'' @ ds_repoOwner s @ ''/'' @ ds_repoName s
                          @ ''/contents/'' @ path,
                    auth = Some (ds_token s),
                    body = Some (JSON_stringify b (Obj [(''message'', message), (''content'', Str c),
                      (''branch'', Str (ds_branch s)), (''sha'', sha)]))\<rparr>]) \<and>
         requests (trace (snd (snd (saveFile b path' content' message' (r, w'))))) =
           requests (trace w') @
             \<lparr>meth = GET,
              url = rt_baseURL r @ ''/repos/'' @ rt_repoOwner r @ ''/'' @ rt_repoName r
                    @ ''/contents/'' @ path' @ ''?ref='' @ rt_branch r,
              auth = Some (rt_token r), body = None\<rparr> #
             (case Option.bind (utf8 b (JSON_stringify b content')) (btoa b) of
                None \<Rightarrow> []
              | Some c \<Rightarrow>
                  [\<lparr>meth = PUT,
                    url = rt_baseURL r @ ''/repos/'' @ rt_repoOwner r @ ''/'' @ rt_repoName r
                          @ ''/contents/'' @ path',
                    auth = Some (rt_token r),
                    body = Some (JSON_stringify b (Obj (
                      [(''message'', if message' = Undefined
                                     then Str ''Auto-save from Ezee Money System'' else message'),
                       (''content'', Str c), (''branch'', Str (rt_branch r))]
                      @ (if truthy sha' then [(''sha'', sha')] else []))))\<rparr>]) \<and>
         requests (trace (snd (uploadFile b g filename content'' message'' w''))) =
           requests (trace w'') @
             [\<lparr>meth = GET,
               url = gh_baseURL g @ ''/repos/'' @ toString b (opt_prop (gh_config g) ''repoOwner'')
                     @ ''/'' @ toString b (opt_prop (gh_config g) ''repoName'')
                     @ ''/contents/'' @ filename,
               auth = Some (opt_prop (gh_config g) ''token''), body = None\<rparr>,
              \<lparr>meth = PUT,
               url = gh_baseURL g @ ''/repos/'' @ toString b (opt_prop (gh_config g) ''repoOwner'')
                     @ ''/'' @ toString b (opt_prop (gh_config g) ''repoName'')
                     @ ''/contents/'' @ filename,
               auth = Some (opt_prop (gh_config g) ''token''),
               body = Some (JSON_stringify b (Obj
                 [(''message'', if message'' = Undefined then Str ''Upload file'' else message''),
                  (''content'', content''), (''sha'', sha'')]))\<rparr>] \<and>
         (\<forall>u rq st ps rs v.
            replies u = Some (Response st (Some (Obj ps))) # rs \<and> 200 \<le> st \<and> st \<le> 299
              \<and> map_of ps ''sha'' = Some v \<longrightarrow> fst (read_sha rq u) = Inr v) \<and>
         (\<forall>u rq p rs. replies u = Some (Response 404 p) # rs \<longrightarrow> fst (read_sha rq u) = Inr Null)"
proof -
  have ds': "fst (read_sha (ds_read_request s path) w) = Inr sha"
    using ds by (simp add: ds_read_request_def ds_contents_url_def)
  have rt': "fst (read_sha (rt_read_request r path') w') = Inr sha'"
    using rt by (simp add: rt_read_request_def rt_contents_url_def)
  have gh': "fst (read_sha (gh_read_request b g filename) w'') = Inr sha''"
    using gh by (simp add: gh_read_request_def gh_contents_url_def)
  have existing: "\<forall>u rq st ps rs v.
            replies u = Some (Response st (Some (Obj ps))) # rs \<and> 200 \<le> st \<and> st \<le> 299
              \<and> map_of ps ''sha'' = Some v \<longrightarrow> fst (read_sha rq u) = Inr v"
    using read_sha_existing by blast
  have absent: "\<forall>u rq p rs. replies u = Some (Response 404 p) # rs \<longrightarrow> fst (read_sha rq u) = Inr Null"
    using read_sha_absent by blast
  have a: "requests (trace (snd (saveFileContent b s path content message w))) =
           requests (trace w) @
             \<lparr>meth = GET,
              url = ds_baseURL s @ ''/repos/'' @ ds_repoOwner s @ ''/'' @ ds_repoName s
                    @ ''/contents/'' @ path @ ''?ref='' @ ds_branch s,
              auth = Some (ds_token s), body = None\<rparr> #
             (case Option.bind (utf8 b (JSON_stringify b content)) (btoa b) of
                None \<Rightarrow> []
              | Some c \<Rightarrow>
                  [\<lparr>meth = PUT,
                    url = ds_baseURL s @ ''/repos/'' @ ds_repoOwner s @ ''/'' @ ds_repoName s
                          @ ''/contents/'' @ path,
                    auth = Some (ds_token s),
                    body = Some (JSON_stringify b (Obj [(''message'', message), (''content'', Str c),
                      (''branch'', Str (ds_branch s)), (''sha'', sha)]))\<rparr>])"
    using saveFileContent_requests [OF ds', of b content message]
    by (simp add: ds_read_request_def ds_contents_url_def ds_write_request_def split: option.splits)
  have c: "requests (trace (snd (snd (saveFile b path' content' message' (r, w'))))) =
           requests (trace w') @
             \<lparr>meth = GET,
              url = rt_baseURL r @ ''/repos/'' @ rt_repoOwner r @ ''/'' @ rt_repoName r
                    @ ''/contents/'' @ path' @ ''?ref='' @ rt_branch r,
              auth = Some (rt_token r), body = None\<rparr> #
             (case Option.bind (utf8 b (JSON_stringify b content')) (btoa b) of
                None \<Rightarrow> []
              | Some c \<Rightarrow>
                  [\<lparr>meth = PUT,
                    url = rt_baseURL r @ ''/repos/'' @ rt_repoOwner r @ ''/'' @ rt_repoName r
                          @ ''/contents/'' @ path',
                    auth = Some (rt_token r),
                    body = Some (JSON_stringify b (Obj (
                      [(''message'', if message' = Undefined
                                     then Str ''Auto-save from Ezee Money System'' else message'),
                       (''content'', Str c), (''branch'', Str (rt_branch r))]
                      @ (if truthy sha' then [(''sha'', sha')] else []))))\<rparr>])"
    using saveFile_requests [OF rt', of b content' message']
    by (simp add: rt_read_request_def rt_contents_url_def rt_write_request_def default_to_def
        split: option.splits)
  have u: "requests (trace (snd (uploadFile b g filename content'' message'' w''))) =
           requests (trace w'') @
             [\<lparr>meth = GET,
               url = gh_baseURL g @ ''/repos/'' @ toString b (opt_prop (gh_config g) ''repoOwner'')
                     @ ''/'' @ toString b (opt_prop (gh_config g) ''repoName'')
                     @ ''/contents/'' @ filename,
               auth = Some (opt_prop (gh_config g) ''token''), body = None\<rparr>,
              \<lparr>meth = PUT,
               url = gh_baseURL g @ ''/repos/'' @ toString b (opt_prop (gh_config g) ''repoOwner'')
                     @ ''/'' @ toString b (opt_prop (gh_config g) ''repoName'')
                     @ ''/contents/'' @ filename,
               auth = Some (opt_prop (gh_config g) ''token''),
               body = Some (JSON_stringify b (Obj
                 [(''message'', if message'' = Undefined then Str ''Upload file'' else message''),
                  (''content'', content''), (''sha'', sha'')]))\<rparr>]"
    using uploadFile_requests [OF gc gh', of content'' message'']
    by (simp add: gh_read_request_def gh_contents_url_def gh_write_request_def default_to_def)
  show ?thesis
    using a c u existing absent by (intro conjI)
qed

theorem writes_carry_freshly_read_token_witness:
  "requests (trace (snd (saveFileContent sample_builtins sample_sync ''data.json''
      (Obj [(''agents'', Arr [])]) (Str ''update'') overwrite_world))) =
     [\<lparr>meth = GET,
       url = ''https://api.github.com/repos/BarasaGodwilTech/Ezee-money/contents/data.json?ref=main'',
       auth = Some (Str ''t0''), body = None\<rparr>,
      \<lparr>meth = PUT,
       url = ''https://api.github.com/repos/BarasaGodwilTech/Ezee-money/contents/data.json'',
       auth = Some (Str ''t0''),
       body = Some ''{message:<update>,content:<{agents:[]}>,branch:<main>,sha:<sha1>}''\<rparr>] \<and>
   requests (trace (snd (snd (saveFile sample_builtins ''data.json'' (Obj [(''agents'', Arr [])])
      (Str ''update'') (sample_rt, overwrite_world))))) =
     [\<lparr>meth = GET,
       url = ''https://api.github.com/repos/BarasaGodwilTech/Ezee-money/contents/data.json?ref=main'',
       auth = Some (Str ''t0''), body = None\<rparr>,
      \<lparr>meth = PUT,
       url = ''https://api.github.com/repos/BarasaGodwilTech/Ezee-money/contents/data.json'',
       auth = Some (Str ''t0''),
       body = Some ''{message:<update>,content:<{agents:[]}>,branch:<main>,sha:<sha1>}''\<rparr>] \<and>
   requests (trace (snd (uploadFile sample_builtins sample_gh ''submissions.json'' (Str ''AAAA'')
      (Str ''update'') overwrite_world))) =
     [\<lparr>meth = GET,
       url = ''https://api.github.com/repos/BarasaGodwilTech/Ezee-money/contents/submissions.json'',
       auth = Some (Str ''t0''), body = None\<rparr>,
      \<lparr>meth = PUT,
       url = ''https://api.github.com/repos/BarasaGodwilTech/Ezee-money/contents/submissions.json'',
       auth = Some (Str ''t0''),
       body = Some ''{message:<update>,content:<AAAA>,sha:<sha1>}''\<rparr>] \<and>
   requests (trace (snd (saveFileContent sample_builtins sample_sync ''agents.json''
      (Obj [(''agents'', Arr [])]) (Str ''create'') create_world))) =
     [\<lparr>meth = GET,
       url = ''https://api.github.com/repos/BarasaGodwilTech/Ezee-money/contents/agents.json?ref=main'',
       auth = Some (Str ''t0''), body = None\<rparr>,
      \<lparr>meth = PUT,
       url = ''https://api.github.com/repos/BarasaGodwilTech/Ezee-money/contents/agents.json'',
       auth = Some (Str ''t0''),
       body = Some ''{message:<create>,content:<{agents:[]}>,branch:<main>,sha:null}''\<rparr>] \<and>
   requests (trace (snd (snd (saveFile sample_builtins ''agents.json'' (Obj [(''agents'', Arr [])])
      Undefined (sample_rt, create_world))))) =
     [\<lparr>meth = GET,
       url = ''https://api.github.com/repos/BarasaGodwilTech/Ezee-money/contents/agents.json?ref=main'',
       auth = Some (Str ''t0''), body = None\<rparr>,
      \<lparr>meth = PUT,
       url = ''https://api.github.com/repos/BarasaGodwilTech/Ezee-money/contents/agents.json'',
       auth = Some (Str ''t0''),
       body = Some ''{message:<Auto-save from Ezee Money System>,content:<{agents:[]}>,branch:<main>}''\<rparr>] \<and>
   requests (trace (snd (uploadFile sample_builtins sample_gh ''agents.json'' (Str ''AAAA'')
      Undefined create_world))) =
     [\<lparr>meth = GET,
       url = ''https://api.github.com/repos/BarasaGodwilTech/Ezee-money/contents/agents.json'',
       auth = Some (Str ''t0''), body = None\<rparr>,
      \<lparr>meth = PUT,
       url = ''https://api.github.com/repos/BarasaGodwilTech/Ezee-money/contents/agents.json'',
       auth = Some (Str ''t0''),
       body = Some ''{message:<Upload file>,content:<AAAA>,sha:null}''\<rparr>]"
proof -
  let ?ds = "\<lambda>path. \<lparr>meth = GET,
      url = ds_baseURL sample_sync @ ''/repos/'' @ ds_repoOwner sample_sync @ ''/''
            @ ds_repoName sample_sync @ ''/contents/'' @ path @ ''?ref='' @ ds_branch sample_sync,
      auth = Some (ds_token sample_sync), body = None\<rparr>"
  let ?rt = "\<lambda>path. \<lparr>meth = GET,
      url = rt_baseURL sample_rt @ ''/repos/'' @ rt_repoOwner sample_rt @ ''/''
            @ rt_repoName sample_rt @ ''/contents/'' @ path @ ''?ref='' @ rt_branch sample_rt,
      auth = Some (rt_token sample_rt), body = None\<rparr>"
  let ?gh = "\<lambda>filename. \<lparr>meth = GET,
      url = gh_baseURL sample_gh @ ''/repos/''
            @ toString sample_builtins (opt_prop (gh_config sample_gh) ''repoOwner'') @ ''/''
            @ toString sample_builtins (opt_prop (gh_config sample_gh) ''repoName'')
            @ ''/contents/'' @ filename,
      auth = Some (opt_prop (gh_config sample_gh) ''token''), body = None\<rparr>"
  have existing: "fst (read_sha rq overwrite_world) = Inr (Str ''sha1'')" for rq
    by (simp add: read_sha_def op_defs net_defs overwrite_world_def sample_defs)
  have absent: "fst (read_sha rq create_world) = Inr Null" for rq
    by (simp add: read_sha_def op_defs net_defs create_world_def sample_defs)
  have gc: "fst (config_incomplete (gh_config sample_gh) u) = Inr False" for u
    by (simp add: op_defs config_incomplete_def sample_gh_def)
  note over = writes_carry_freshly_read_token [where b = sample_builtins,
      OF existing [of "?ds ''data.json''"] existing [of "?rt ''data.json''"] gc
         existing [of "?gh ''submissions.json''"],
      of "Obj [(''agents'', Arr [])]" "Str ''update''" "Obj [(''agents'', Arr [])]" "Str ''update''"
         "Str ''AAAA''" "Str ''update''"]
  note create = writes_carry_freshly_read_token [where b = sample_builtins,
      OF absent [of "?ds ''agents.json''"] absent [of "?rt ''agents.json''"] gc
         absent [of "?gh ''agents.json''"],
      of "Obj [(''agents'', Arr [])]" "Str ''create''" "Obj [(''agents'', Arr [])]" Undefined
         "Str ''AAAA''" Undefined]
  show ?thesis
    using over create
    by (simp add: sample_builtins_def world_of_def overwrite_world_def create_world_def
        sample_sync_def sample_rt_def sample_gh_def new_DataSyncService_def new_RealTimeService_def)
qed

section \<open>Saving a submission\<close>

lemma config_incomplete_world:
  "fst (config_incomplete config w) = fst (config_incomplete config w')"
  by (auto simp: config_incomplete_def op_defs split: sum.splits if_splits)

lemma readFile_complete:
  assumes "fst (config_incomplete (gh_config g) w) = Inr False"
  shows "\<exists>r. readFile b g f w =
           (r, w\<lparr>replies := tl (replies w), trace := trace w @ [Sent (gh_read_request b g f)]\<rparr>)"
  using config_incomplete_pure [OF assms]
  by (auto simp: readFile_def op_defs fetch_eq split: list.splits option.splits sum.splits)

text \<open>What the inner try of saveSubmission yields, from what readFile did.\<close>

lemma existing_submissions_eq:
  assumes "readFile b g ''submissions.json'' w = (r, w1)"
  shows "existing_submissions b g w =
           (Inr (case r of
                   Inl e \<Rightarrow> Arr []
                 | Inr existingData \<Rightarrow>
                     if truthy existingData \<and> truthy (opt_prop existingData ''submissions'')
                     then opt_prop existingData ''submissions'' else Arr []), w1)"
  using assms
  by (cases r; cases "projr r")
     (auto simp: existing_submissions_def op_defs split: option.splits)

lemma and_then_InrE:
  assumes "and_then m f w = (Inr y, w')"
  obtains x w1 where "m w = (Inr x, w1)" and "f x w1 = (Inr y, w')"
  using assms by (auto simp: and_then_def split: prod.splits sum.splits)

lemma try_rethrow_InrE:
  assumes "try_catch m (\<lambda>error. throw (h error)) w = (Inr y, w')"
  obtains "m w = (Inr y, w')"
  using assms by (auto simp: try_catch_def throw_def split: prod.splits sum.splits)

lemma try_log_rethrow_InrE:
  assumes "try_catch m (\<lambda>error. and_then (console_error msg) (\<lambda>_. throw error)) w = (Inr y, w')"
  obtains "m w = (Inr y, w')"
  using assms
  by (auto simp: try_catch_def throw_def and_then_def console_error_def split: prod.splits sum.splits)

lemma lift_InrE:
  assumes "lift r w = (Inr x, w')"
  obtains "r = Inr x" and "w' = w"
  using assms by (auto simp: lift_def)

lemma lift_opt_InrE:
  assumes "lift_opt e r w = (Inr x, w')"
  obtains "r = Some x" and "w' = w"
  using assms by (auto simp: lift_opt_def ret_def throw_def split: option.splits)

lemma ret_InrE:
  assumes "ret x w = (Inr y, w')"
  obtains "y = x" and "w' = w"
  using assms by (auto simp: ret_def)

lemma push_Inr: "push v x = Inr y \<Longrightarrow> \<exists>xs. v = Arr xs \<and> y = Arr (xs @ [x])"
  by (cases v) simp_all

text \<open>The steps of a successful saveSubmission after its read, one by one.\<close>

lemma saveSubmission_steps:
  assumes ok: "saveSubmission b g submissionData now createdAt lastUpdated w = (Inr result, w')"
      and es: "existing_submissions b g w = (Inr old, w1)"
  shows "\<exists>new content agentInfo fullName res c downloadUrl.
      push old (newSubmission submissionData now createdAt) = Inr new \<and>
      btoa b (JSON_stringify b (Obj [(''submissions'', new), (''lastUpdated'', Str lastUpdated),
          (''totalSubmissions'', js_length new)])) = Some content \<and>
      get_prop (Obj submissionData) ''agentInfo'' = Inr agentInfo \<and>
      get_prop agentInfo ''fullName'' = Inr fullName \<and>
      uploadFile b g ''submissions.json'' (Str content)
        (Str (''New submission from '' @ toString b fullName)) w1 = (Inr res, w') \<and>
      get_prop res ''content'' = Inr c \<and>
      get_prop c ''download_url'' = Inr downloadUrl \<and>
      result = Obj [(''success'', Bool True),
                    (''submissionId'', opt_prop (newSubmission submissionData now createdAt) ''id''),
                    (''downloadUrl'', downloadUrl)]"
  using ok es unfolding saveSubmission_def
  apply (elim try_rethrow_InrE and_then_InrE lift_InrE lift_opt_InrE ret_InrE)
  apply hypsubst
  apply (simp only: prod.inject sum.inject)
  apply (elim conjE)
  apply hypsubst
  apply (intro exI conjI; (rule refl | assumption))
  done

lemma saveSubmission_written:
  assumes ok: "saveSubmission b g submissionData now createdAt lastUpdated w = (Inr result, w')"
      and rd: "readFile b g ''submissions.json'' w = (r, w1)"
  shows "\<exists>olds content sha agentInfo fullName downloadUrl.
      (case r of
         Inl e \<Rightarrow> olds = []
       | Inr existingData \<Rightarrow>
           if truthy existingData \<and> truthy (opt_prop existingData ''submissions'')
           then opt_prop existingData ''submissions'' = Arr olds else olds = []) \<and>
      btoa b (JSON_stringify b (Obj [
        (''submissions'', Arr (olds @ [newSubmission submissionData now createdAt])),
        (''lastUpdated'', Str lastUpdated),
        (''totalSubmissions'',
          Num (int (length (olds @ [newSubmission submissionData now createdAt]))))])) = Some content \<and>
      fst (read_sha (gh_read_request b g ''submissions.json'') w1) = Inr sha \<and>
      get_prop (Obj submissionData) ''agentInfo'' = Inr agentInfo \<and>
      get_prop agentInfo ''fullName'' = Inr fullName \<and>
      requests (trace w') = requests (trace w) @ [gh_read_request b g ''submissions.json'',
        gh_read_request b g ''submissions.json'',
        gh_write_request b g ''submissions.json''
          (Str (''New submission from '' @ toString b fullName)) (Str content) sha] \<and>
      result = Obj [(''success'', Bool True),
                    (''submissionId'', opt_prop (newSubmission submissionData now createdAt) ''id''),
                    (''downloadUrl'', downloadUrl)]"
proof -
  define old where "old = (case r of
                   Inl e \<Rightarrow> Arr []
                 | Inr existingData \<Rightarrow>
                     if truthy existingData \<and> truthy (opt_prop existingData ''submissions'')
                     then opt_prop existingData ''submissions'' else Arr [])"
  have es: "existing_submissions b g w = (Inr old, w1)"
    unfolding old_def using rd by (rule existing_submissions_eq)
  obtain new content agentInfo fullName res c downloadUrl where
    p: "push old (newSubmission submissionData now createdAt) = Inr new" and
    c: "btoa b (JSON_stringify b (Obj [(''submissions'', new), (''lastUpdated'', Str lastUpdated),
          (''totalSubmissions'', js_length new)])) = Some content" and
    ai: "get_prop (Obj submissionData) ''agentInfo'' = Inr agentInfo" and
    fn: "get_prop agentInfo ''fullName'' = Inr fullName" and
    u: "uploadFile b g ''submissions.json'' (Str content)
          (Str (''New submission from '' @ toString b fullName)) w1 = (Inr res, w')" and
    res: "result = Obj [(''success'', Bool True),
                    (''submissionId'', opt_prop (newSubmission submissionData now createdAt) ''id''),
                    (''downloadUrl'', downloadUrl)]"
    using saveSubmission_steps [OF ok es] by blast
  obtain olds where o: "old = Arr olds" "new = Arr (olds @ [newSubmission submissionData now createdAt])"
    using push_Inr [OF p] by blast
  let ?message = "Str (''New submission from '' @ toString b fullName)"
  have complete1: "fst (config_incomplete (gh_config g) w1) = Inr False"
    using u uploadFile_incomplete [of g w1 b "''submissions.json''" "Str content" ?message]
    by (cases "fst (config_incomplete (gh_config g) w1) = Inr False") auto
  then have complete: "fst (config_incomplete (gh_config g) w) = Inr False"
    using config_incomplete_world [of "gh_config g" w w1] by simp
  have t1: "requests (trace w1) = requests (trace w) @ [gh_read_request b g ''submissions.json'']"
    using readFile_complete [OF complete, of b "''submissions.json''"] rd
    by (auto simp: requests_append)
  obtain sha where s: "fst (read_sha (gh_read_request b g ''submissions.json'') w1) = Inr sha"
    using read_sha_runs [of "gh_read_request b g ''submissions.json''" w1] by force
  have d: "default_to ?message (Str ''Upload file'') = ?message"
    by (simp add: default_to_def)
  have t2: "requests (trace w') = requests (trace w1) @ [gh_read_request b g ''submissions.json'',
      gh_write_request b g ''submissions.json'' ?message (Str content) sha]"
    using uploadFile_requests [OF complete1 s, of "Str content" ?message] u
    unfolding d by simp
  have t: "requests (trace w') = requests (trace w) @ [gh_read_request b g ''submissions.json'',
        gh_read_request b g ''submissions.json'',
        gh_write_request b g ''submissions.json'' ?message (Str content) sha]"
    unfolding t2 t1 by simp
  have r: "case r of
         Inl e \<Rightarrow> olds = []
       | Inr existingData \<Rightarrow>
           if truthy existingData \<and> truthy (opt_prop existingData ''submissions'')
           then opt_prop existingData ''submissions'' = Arr olds else olds = []"
    using o(1) unfolding old_def by (auto split: sum.splits if_splits)
  have c': "btoa b (JSON_stringify b (Obj [
        (''submissions'', Arr (olds @ [newSubmission submissionData now createdAt])),
        (''lastUpdated'', Str lastUpdated),
        (''totalSubmissions'',
          Num (int (length (olds @ [newSubmission submissionData now createdAt]))))])) = Some content"
    using c o by simp
  show ?thesis
    apply (rule exI [of _ olds], rule exI [of _ content], rule exI [of _ sha],
        rule exI [of _ agentInfo], rule exI [of _ fullName], rule exI [of _ downloadUrl])
    using r c' s ai fn t res by - (intro conjI; assumption)
qed

lemma fetch_InrE:
  assumes "fetch rq w = (Inr r, w')"
  obtains rs where "replies w = Some r # rs"
    and "w' = w\<lparr>replies := rs, trace := trace w @ [Sent rq]\<rparr>"
  using assms by (auto simp: fetch_def split: list.splits option.splits)

lemma encode_json_Inr:
  assumes "encode_json b c w = (Inr x, w')"
  shows "Option.bind (utf8 b (JSON_stringify b c)) (btoa b) = Some x \<and> w' = w"
  using assms
  by (auto simp: encode_json_def and_then_def lift_opt_def ret_def throw_def split: option.splits)

lemma add_submission_Inr:
  assumes "add_submission v x st = Inr y"
  shows "\<exists>doc olds. v = Obj doc \<and> map_of doc ''agents'' = Some (Arr olds) \<and>
           y = Obj (set_prop (set_prop doc ''agents'' (Arr (olds @ [x])))
                 ''lastUpdated'' (Str (final_lastUpdated st)))"
proof (cases v)
  case (Obj doc)
  then show ?thesis
    using assms
    by (cases "map_of doc ''agents''"; cases "the (map_of doc ''agents'')")
       (auto simp: add_submission_def)
qed (use assms in \<open>simp_all add: add_submission_def\<close>)

lemma current_data_Inr:
  assumes "current_data b st r w = (Inr (v, sha), w')"
  shows "w' = w \<and>
    (if ok r
     then \<exists>data c text. payload r = Some data \<and> get_prop data ''content'' = Inr c \<and>
            atob b c = Some text \<and> JSON_parse b text = Some v \<and> get_prop data ''sha'' = Inr sha
     else v = Obj [(''agents'', Arr []), (''lastUpdated'', Str (initial_lastUpdated st))] \<and> sha = Null)"
  using assms
  by (auto simp: current_data_def op_defs split: if_splits option.splits sum.splits)

lemma saveToDataFile_written:
  assumes ok: "saveToDataFile b submission token st w = (Inr (), w')"
  shows "\<exists>r rs doc sha olds content fullName.
     replies w = Some r # rs \<and>
     (if ok r
      then \<exists>data c text. payload r = Some data \<and> get_prop data ''content'' = Inr c \<and>
             atob b c = Some text \<and> JSON_parse b text = Some (Obj doc) \<and>
             get_prop data ''sha'' = Inr sha
      else doc = [(''agents'', Arr []), (''lastUpdated'', Str (initial_lastUpdated st))] \<and> sha = Null) \<and>
     map_of doc ''agents'' = Some (Arr olds) \<and>
     Option.bind (utf8 b (JSON_stringify b (Obj (set_prop
         (set_prop doc ''agents'' (Arr (olds @ [submission])))
         ''lastUpdated'' (Str (final_lastUpdated st)))))) (btoa b) = Some content \<and>
     get_prop submission ''fullName'' = Inr fullName \<and>
     requests (trace w') = requests (trace w) @
       [\<lparr>meth = GET, url = data_json_url, auth = Some token, body = None\<rparr>,
        data_write_request b token fullName content sha]"
proof -
  let ?get = "\<lparr>meth = GET, url = data_json_url, auth = Some token, body = None\<rparr>"
  from ok obtain response w1 x w2 new w3 content w4 fullName w4' saveResponse w5 where
    f: "fetch ?get w = (Inr response, w1)" and
    rd: "current_data b st response w1 = (Inr x, w2)" and
    ad: "lift (add_submission (fst x) submission st) w2 = (Inr new, w3)" and
    en: "encode_json b new w3 = (Inr content, w4)" and
    fn: "lift (get_prop submission ''fullName'') w4 = (Inr fullName, w4')" and
    put: "fetch (data_write_request b token fullName content (snd x)) w4' = (Inr saveResponse, w5)" and
    fin: "(if \<not> ok saveResponse then
            and_then (json saveResponse) (\<lambda>error.
            and_then (lift (get_prop error ''message'')) (\<lambda>m.
            throw (Error ''Failed to save to data.json:'')))
          else ret ()) w5 = (Inr (), w')"
    unfolding saveToDataFile_def
    by (elim try_log_rethrow_InrE and_then_InrE) (auto elim!: and_then_InrE)
  obtain rs where rs: "replies w = Some response # rs"
    "w1 = w\<lparr>replies := rs, trace := trace w @ [Sent ?get]\<rparr>"
    using f by (elim fetch_InrE)
  obtain v sha where x: "x = (v, sha)"
    by (cases x)
  have w2: "w2 = w1" and
    cur: "if ok response
     then \<exists>data c text. payload response = Some data \<and> get_prop data ''content'' = Inr c \<and>
            atob b c = Some text \<and> JSON_parse b text = Some v \<and> get_prop data ''sha'' = Inr sha
     else v = Obj [(''agents'', Arr []), (''lastUpdated'', Str (initial_lastUpdated st))] \<and> sha = Null"
    using current_data_Inr [OF rd [unfolded x]] by blast+
  have w3: "w3 = w2" and new: "add_submission v submission st = Inr new"
    using ad x by (auto elim: lift_InrE)
  obtain doc olds where d: "v = Obj doc" "map_of doc ''agents'' = Some (Arr olds)"
    "new = Obj (set_prop (set_prop doc ''agents'' (Arr (olds @ [submission])))
                 ''lastUpdated'' (Str (final_lastUpdated st)))"
    using add_submission_Inr [OF new] by blast
  have w4: "w4 = w3" and
    enc: "Option.bind (utf8 b (JSON_stringify b new)) (btoa b) = Some content"
    using encode_json_Inr [OF en] by blast+
  have w4': "w4' = w4" and name: "get_prop submission ''fullName'' = Inr fullName"
    using fn by (auto elim: lift_InrE)
  obtain rs' where w5: "w5 = w4'\<lparr>replies := rs', trace := trace w4' @
      [Sent (data_write_request b token fullName content sha)]\<rparr>"
    using put x by (auto elim: fetch_InrE)
  have w': "w' = w5"
    using fin
    by (auto simp: ret_def throw_def split: if_splits elim!: and_then_InrE)
  have t: "requests (trace w') = requests (trace w) @
       [?get, data_write_request b token fullName content sha]"
    by (simp add: w' w5 w4' w4 w3 w2 rs requests_append)
  have cur': "if ok response
      then \<exists>data c text. payload response = Some data \<and> get_prop data ''content'' = Inr c \<and>
             atob b c = Some text \<and> JSON_parse b text = Some (Obj doc) \<and>
             get_prop data ''sha'' = Inr sha
      else doc = [(''agents'', Arr []), (''lastUpdated'', Str (initial_lastUpdated st))] \<and> sha = Null"
    using cur d(1) by (auto split: if_splits)
  have enc': "Option.bind (utf8 b (JSON_stringify b (Obj (set_prop
         (set_prop doc ''agents'' (Arr (olds @ [submission])))
         ''lastUpdated'' (Str (final_lastUpdated st)))))) (btoa b) = Some content"
    using enc d(3) by simp
  show ?thesis
    apply (rule exI [of _ response], rule exI [of _ rs], rule exI [of _ doc], rule exI [of _ sha],
        rule exI [of _ olds], rule exI [of _ content], rule exI [of _ fullName])
    using rs(1) cur' d(2) enc' name t by - (intro conjI; assumption)
qed

text \<open>
  Claim C4.  After a successful \<^verbatim>\<open>GitHubService.saveSubmission\<close>, let \<open>olds\<close> be the
  \<open>submissions\<close> array of what its \<^verbatim>\<open>readFile\<close> returned, or the empty list when the read
  returned no document (the file is absent), no truthy \<open>submissions\<close>, or threw.  The
  requests sent are that read of \<open>submissions.json\<close>, the read of the version token, and one
  \<^verbatim>\<open>PUT\<close> to the same path whose body carries, as \<open>content\<close>, the encoding of the object
  with \<open>submissions\<close> equal to \<open>olds\<close> followed by the new record, \<open>lastUpdated\<close>, and
  \<open>totalSubmissions\<close> equal to the length of that list; the new record is the caller's
  object with the generated \<open>id\<close> (unless it has one) and \<open>createdAt\<close>, and the result
  names the record's \<open>id\<close>.
  After a successful \<^verbatim>\<open>EnhancedSubmissionHandler.saveToDataFile\<close>, let \<open>doc\<close> be the document
  parsed from the ok response to its read of \<open>data.json\<close>, or the initial document with no
  records when the response is not ok (then the list is empty and the token null).  The
  requests sent are that read and one \<^verbatim>\<open>PUT\<close> to the same path whose body carries, as
  \<open>content\<close>, the encoding of \<open>doc\<close> with its \<open>agents\<close> list followed by the new record
  and \<open>lastUpdated\<close> set to the new stamp, every other property as read.
\<close>

theorem submission_written_is_read_list_plus_record:
  fixes submissionData :: "(string \<times> jv) list" and now createdAt :: string
    and b :: builtins and g :: GitHubService
  defines "new \<equiv> Obj (set_prop (fold (\<lambda>(k, v) ps. set_prop ps k v) submissionData [(''id'', Str now)])
                        ''createdAt'' (Str createdAt))"
      and "file_url \<equiv> gh_baseURL g @ ''/repos/'' @ toString b (opt_prop (gh_config g) ''repoOwner'')
                      @ ''/'' @ toString b (opt_prop (gh_config g) ''repoName'')
                      @ ''/contents/submissions.json''"
      and "data_url \<equiv> ''https://api.github.com/repos/BarasaGodwilTech/Ezee-money/contents/data.json''"
  assumes gs: "saveSubmission b g submissionData now createdAt lastUpdated w = (Inr result, w')"
      and rd: "readFile b g ''submissions.json'' w = (r, w1)"
      and es: "saveToDataFile b submission token st v = (Inr (), v')"
  shows "(\<exists>olds content sha agentInfo fullName downloadUrl.
      (case r of
         Inl e \<Rightarrow> olds = []
       | Inr existingData \<Rightarrow>
           if truthy existingData \<and> truthy (opt_prop existingData ''submissions'')
           then opt_prop existingData ''submissions'' = Arr olds else olds = []) \<and>
      btoa b (JSON_stringify b (Obj [
        (''submissions'', Arr (olds @ [new])),
        (''lastUpdated'', Str lastUpdated),
        (''totalSubmissions'', Num (int (length (olds @ [new]))))])) = Some content \<and>
      fst (read_sha \<lparr>meth = GET, url = file_url, auth = Some (opt_prop (gh_config g) ''token''),
                      body = None\<rparr> w1) = Inr sha \<and>
      get_prop (Obj submissionData) ''agentInfo'' = Inr agentInfo \<and>
      get_prop agentInfo ''fullName'' = Inr fullName \<and>
      requests (trace w') = requests (trace w) @
        [\<lparr>meth = GET, url = file_url, auth = Some (opt_prop (gh_config g) ''token''), body = None\<rparr>,
         \<lparr>meth = GET, url = file_url, auth = Some (opt_prop (gh_config g) ''token''), body = None\<rparr>,
         \<lparr>meth = PUT, url = file_url, auth = Some (opt_prop (gh_config g) ''token''),
          body = Some (JSON_stringify b (Obj [
            (''message'', Str (''New submission from '' @ toString b fullName)),
            (''content'', Str content), (''sha'', sha)]))\<rparr>] \<and>
      result = Obj [(''success'', Bool True), (''submissionId'', opt_prop new ''id''),
                    (''downloadUrl'', downloadUrl)]) \<and>
    (\<exists>r rs doc sha olds content fullName.
      replies v = Some r # rs \<and>
      (if ok r
       then \<exists>data c text. payload r = Some data \<and> get_prop data ''content'' = Inr c \<and>
              atob b c = Some text \<and> JSON_parse b text = Some (Obj doc) \<and>
              get_prop data ''sha'' = Inr sha
       else doc = [(''agents'', Arr []), (''lastUpdated'', Str (initial_lastUpdated st))] \<and> sha = Null
              \<and> olds = []) \<and>
      map_of doc ''agents'' = Some (Arr olds) \<and>
      Option.bind (utf8 b (JSON_stringify b (Obj (set_prop
          (set_prop doc ''agents'' (Arr (olds @ [submission])))
          ''lastUpdated'' (Str (final_lastUpdated st)))))) (btoa b) = Some content \<and>
      get_prop submission ''fullName'' = Inr fullName \<and>
      requests (trace v') = requests (trace v) @
        [\<lparr>meth = GET, url = data_url, auth = Some token, body = None\<rparr>,
         \<lparr>meth = PUT, url = data_url, auth = Some token,
          body = Some (JSON_stringify b (Obj [
            (''message'', Str (''Add new submission from '' @ toString b fullName)),
            (''content'', Str content), (''branch'', Str ''main''), (''sha'', sha)]))\<rparr>])"
proof -
  have new: "newSubmission submissionData now createdAt = new"
    by (simp add: newSubmission_def new_def)
  have get: "gh_read_request b g ''submissions.json'' =
      \<lparr>meth = GET, url = file_url, auth = Some (opt_prop (gh_config g) ''token''), body = None\<rparr>"
    by (simp add: gh_read_request_def gh_contents_url_def file_url_def)
  have put: "gh_write_request b g ''submissions.json'' m c s =
      \<lparr>meth = PUT, url = file_url, auth = Some (opt_prop (gh_config g) ''token''),
       body = Some (JSON_stringify b (Obj [(''message'', m), (''content'', c), (''sha'', s)]))\<rparr>"
    for m c s
    by (simp add: gh_write_request_def gh_contents_url_def file_url_def)
  have dput: "data_write_request b token n c s =
      \<lparr>meth = PUT, url = data_url, auth = Some token,
       body = Some (JSON_stringify b (Obj [
         (''message'', Str (''Add new submission from '' @ toString b n)),
         (''content'', Str c), (''branch'', Str ''main''), (''sha'', s)]))\<rparr>"
    for n c s
    by (simp add: data_write_request_def data_json_url_def data_url_def)
  have durl: "data_json_url = data_url"
    by (simp add: data_json_url_def data_url_def)
  obtain r' rs doc sha olds content fullName where h:
    "replies v = Some r' # rs"
    "if ok r'
       then \<exists>data c text. payload r' = Some data \<and> get_prop data ''content'' = Inr c \<and>
              atob b c = Some text \<and> JSON_parse b text = Some (Obj doc) \<and>
              get_prop data ''sha'' = Inr sha
       else doc = [(''agents'', Arr []), (''lastUpdated'', Str (initial_lastUpdated st))] \<and> sha = Null"
    "map_of doc ''agents'' = Some (Arr olds)"
    "Option.bind (utf8 b (JSON_stringify b (Obj (set_prop
          (set_prop doc ''agents'' (Arr (olds @ [submission])))
          ''lastUpdated'' (Str (final_lastUpdated st)))))) (btoa b) = Some content"
    "get_prop submission ''fullName'' = Inr fullName"
    "requests (trace v') = requests (trace v) @
        [\<lparr>meth = GET, url = data_url, auth = Some token, body = None\<rparr>,
         \<lparr>meth = PUT, url = data_url, auth = Some token,
          body = Some (JSON_stringify b (Obj [
            (''message'', Str (''Add new submission from '' @ toString b fullName)),
            (''content'', Str content), (''branch'', Str ''main''), (''sha'', sha)]))\<rparr>]"
    using saveToDataFile_written [OF es, unfolded dput durl] by blast
  have h2: "if ok r'
       then \<exists>data c text. payload r' = Some data \<and> get_prop data ''content'' = Inr c \<and>
              atob b c = Some text \<and> JSON_parse b text = Some (Obj doc) \<and>
              get_prop data ''sha'' = Inr sha
       else doc = [(''agents'', Arr []), (''lastUpdated'', Str (initial_lastUpdated st))] \<and> sha = Null
              \<and> olds = []"
    using h(2) h(3) by (auto split: if_splits)
  have second: "\<exists>r rs doc sha olds content fullName.
      replies v = Some r # rs \<and>
      (if ok r
       then \<exists>data c text. payload r = Some data \<and> get_prop data ''content'' = Inr c \<and>
              atob b c = Some text \<and> JSON_parse b text = Some (Obj doc) \<and>
              get_prop data ''sha'' = Inr sha
       else doc = [(''agents'', Arr []), (''lastUpdated'', Str (initial_lastUpdated st))] \<and> sha = Null
              \<and> olds = []) \<and>
      map_of doc ''agents'' = Some (Arr olds) \<and>
      Option.bind (utf8 b (JSON_stringify b (Obj (set_prop
          (set_prop doc ''agents'' (Arr (olds @ [submission])))
          ''lastUpdated'' (Str (final_lastUpdated st)))))) (btoa b) = Some content \<and>
      get_prop submission ''fullName'' = Inr fullName \<and>
      requests (trace v') = requests (trace v) @
        [\<lparr>meth = GET, url = data_url, auth = Some token, body = None\<rparr>,
         \<lparr>meth = PUT, url = data_url, auth = Some token,
          body = Some (JSON_stringify b (Obj [
            (''message'', Str (''Add new submission from '' @ toString b fullName)),
            (''content'', Str content), (''branch'', Str ''main''), (''sha'', sha)]))\<rparr>]"
    apply (rule exI [of _ r'], rule exI [of _ rs], rule exI [of _ doc], rule exI [of _ sha],
        rule exI [of _ olds], rule exI [of _ content], rule exI [of _ fullName])
    using h(1) h2 h(3) h(4) h(5) h(6) by - (intro conjI; assumption)
  show ?thesis
    using saveSubmission_written [OF gs rd, unfolded new get put] second by (rule conjI)
qed

theorem submission_written_is_read_list_plus_record_witness:
  "fst (saveSubmission sample_builtins sample_gh [(''agentInfo'', Obj [(''fullName'', Str ''Ann'')])]
      ''17'' ''d1'' ''d2'' submissions_world) =
     Inr (Obj [(''success'', Bool True), (''submissionId'', Str ''17''), (''downloadUrl'', Str ''u'')]) \<and>
   requests (trace (snd (saveSubmission sample_builtins sample_gh
      [(''agentInfo'', Obj [(''fullName'', Str ''Ann'')])] ''17'' ''d1'' ''d2'' submissions_world))) =
     [\<lparr>meth = GET,
       url = ''https://api.github.com/repos/BarasaGodwilTech/Ezee-money/contents/submissions.json'',
       auth = Some (Str ''t0''), body = None\<rparr>,
      \<lparr>meth = GET,
       url = ''https://api.github.com/repos/BarasaGodwilTech/Ezee-money/contents/submissions.json'',
       auth = Some (Str ''t0''), body = None\<rparr>,
      \<lparr>meth = PUT,
       url = ''https://api.github.com/repos/BarasaGodwilTech/Ezee-money/contents/submissions.json'',
       auth = Some (Str ''t0''),
       body = Some (''{message:<New submission from Ann>,content:<{submissions:[{id:<1>},''
         @ ''{id:<17>,agentInfo:{fullName:<Ann>},createdAt:<d1>}],lastUpdated:<d2>,''
         @ ''totalSubmissions:2}>,sha:<s1>}'')\<rparr>] \<and>
   fst (saveSubmission sample_builtins sample_gh
      [(''id'', Str ''X9''), (''agentInfo'', Obj [(''fullName'', Str ''Ann'')])]
      ''17'' ''d1'' ''d2'' first_submission_world) =
     Inr (Obj [(''success'', Bool True), (''submissionId'', Str ''X9''), (''downloadUrl'', Str ''u'')]) \<and>
   requests (trace (snd (saveSubmission sample_builtins sample_gh
      [(''id'', Str ''X9''), (''agentInfo'', Obj [(''fullName'', Str ''Ann'')])]
      ''17'' ''d1'' ''d2'' first_submission_world))) =
     [\<lparr>meth = GET,
       url = ''https://api.github.com/repos/BarasaGodwilTech/Ezee-money/contents/submissions.json'',
       auth = Some (Str ''t0''), body = None\<rparr>,
      \<lparr>meth = GET,
       url = ''https://api.github.com/repos/BarasaGodwilTech/Ezee-money/contents/submissions.json'',
       auth = Some (Str ''t0''), body = None\<rparr>,
      \<lparr>meth = PUT,
       url = ''https://api.github.com/repos/BarasaGodwilTech/Ezee-money/contents/submissions.json'',
       auth = Some (Str ''t0''),
       body = Some (''{message:<New submission from Ann>,content:<{submissions:[''
         @ ''{id:<X9>,agentInfo:{fullName:<Ann>},createdAt:<d1>}],lastUpdated:<d2>,''
         @ ''totalSubmissions:1}>,sha:null}'')\<rparr>] \<and>
   fst (saveToDataFile sample_builtins (Obj [(''id'', Str ''A2''), (''fullName'', Str ''Ann'')])
      (Str ''t0'') sample_stamps overwrite_world) = Inr () \<and>
   requests (trace (snd (saveToDataFile sample_builtins
      (Obj [(''id'', Str ''A2''), (''fullName'', Str ''Ann'')]) (Str ''t0'') sample_stamps
      overwrite_world))) =
     [\<lparr>meth = GET,
       url = ''https://api.github.com/repos/BarasaGodwilTech/Ezee-money/contents/data.json'',
       auth = Some (Str ''t0''), body = None\<rparr>,
      \<lparr>meth = PUT,
       url = ''https://api.github.com/repos/BarasaGodwilTech/Ezee-money/contents/data.json'',
       auth = Some (Str ''t0''),
       body = Some (''{message:<Add new submission from Ann>,content:<{agents:[{id:<A1>},''
         @ ''{id:<A2>,fullName:<Ann>}],lastUpdated:<d3>}>,branch:<main>,sha:<sha1>}'')\<rparr>] \<and>
   fst (saveToDataFile sample_builtins (Obj [(''id'', Str ''A2''), (''fullName'', Str ''Ann'')])
      (Str ''t0'') sample_stamps create_world) = Inr () \<and>
   requests (trace (snd (saveToDataFile sample_builtins
      (Obj [(''id'', Str ''A2''), (''fullName'', Str ''Ann'')]) (Str ''t0'') sample_stamps
      create_world))) =
     [\<lparr>meth = GET,
       url = ''https://api.github.com/repos/BarasaGodwilTech/Ezee-money/contents/data.json'',
       auth = Some (Str ''t0''), body = None\<rparr>,
      \<lparr>meth = PUT,
       url = ''https://api.github.com/repos/BarasaGodwilTech/Ezee-money/contents/data.json'',
       auth = Some (Str ''t0''),
       body = Some (''{message:<Add new submission from Ann>,content:<{agents:[''
         @ ''{id:<A2>,fullName:<Ann>}],lastUpdated:<d3>}>,branch:<main>,sha:null}'')\<rparr>]"
proof -
  let ?a = "saveSubmission sample_builtins sample_gh [(''agentInfo'', Obj [(''fullName'', Str ''Ann'')])]
      ''17'' ''d1'' ''d2'' submissions_world"
  let ?a' = "saveSubmission sample_builtins sample_gh
      [(''id'', Str ''X9''), (''agentInfo'', Obj [(''fullName'', Str ''Ann'')])]
      ''17'' ''d1'' ''d2'' first_submission_world"
  let ?r = "readFile sample_builtins sample_gh ''submissions.json'' submissions_world"
  let ?r' = "readFile sample_builtins sample_gh ''submissions.json'' first_submission_world"
  let ?e = "saveToDataFile sample_builtins (Obj [(''id'', Str ''A2''), (''fullName'', Str ''Ann'')])
      (Str ''t0'') sample_stamps overwrite_world"
  let ?e' = "saveToDataFile sample_builtins (Obj [(''id'', Str ''A2''), (''fullName'', Str ''Ann'')])
      (Str ''t0'') sample_stamps create_world"
  have gs: "?a = (Inr (Obj [(''success'', Bool True), (''submissionId'', Str ''17''),
      (''downloadUrl'', Str ''u'')]), snd ?a)"
    by (simp add: op_defs save_defs submission_defs sample_defs net_defs default_to_def)
  have gs': "?a' = (Inr (Obj [(''success'', Bool True), (''submissionId'', Str ''X9''),
      (''downloadUrl'', Str ''u'')]), snd ?a')"
    by (simp add: op_defs save_defs submission_defs sample_defs net_defs default_to_def
        first_submission_world_def)
  have rd: "?r = (fst ?r, snd ?r)" and rd': "?r' = (fst ?r', snd ?r')"
    by simp_all
  have es: "?e = (Inr (), snd ?e)" and es': "?e' = (Inr (), snd ?e')"
    by (simp_all add: op_defs save_defs submission_defs sample_defs net_defs)
  show ?thesis
    using submission_written_is_read_list_plus_record [OF gs rd es]
      submission_written_is_read_list_plus_record [OF gs' rd' es']
    by (simp add: op_defs save_defs submission_defs sample_defs net_defs default_to_def
        first_submission_world_def)
qed

section \<open>Failures of reads and writes\<close>

lemma getFileContent_swallows:
  assumes "next_fails_not_absent (replies w)"
  shows "fst (getFileContent b s p w) = Inr Null \<and>
         console (snd (getFileContent b s p w)) = console w @ [''Error getting file:'']"
  using assms
  by (auto simp: next_fails_not_absent_def getFileContent_def op_defs fetch_eq
      split: list.splits option.splits)

lemma getFile_swallows:
  assumes "next_fails_not_absent (replies w)"
  shows "getFile b r p w =
     (Inr Null, w\<lparr>replies := tl (replies w), trace := trace w @ [Sent (rt_read_request r p)],
        console := console w @ [''Error getting file:'']\<rparr>)"
  using assms
  by (auto simp: next_fails_not_absent_def getFile_def op_defs fetch_eq
      split: list.splits option.splits)

lemma rt_getSubmissions_swallows:
  assumes "next_fails_not_absent (replies w)"
  shows "fst (rt_getSubmissions b r w) = Inr (Arr [])"
  using getFile_swallows [OF assms, of b r "''submissions.json''"]
  by (simp add: rt_getSubmissions_def op_defs or_else_def)

lemma rt_getAgents_swallows:
  assumes "next_fails_not_absent (replies w)"
  shows "fst (rt_getAgents b r w) = Inr (Arr [])"
  using getFile_swallows [OF assms, of b r "''agents.json''"]
  by (simp add: rt_getAgents_def op_defs or_else_def)

lemma rt_getSubmissions_returns: "\<exists>v. fst (rt_getSubmissions b r w) = Inr v"
  using getFile_runs [of b r "''submissions.json''" w]
  by (auto simp: rt_getSubmissions_def op_defs)

lemma rt_getAgents_returns: "\<exists>v. fst (rt_getAgents b r w) = Inr v"
  using getFile_runs [of b r "''agents.json''" w]
  by (auto simp: rt_getAgents_def op_defs)

lemma saveFileContent_raises:
  assumes "next_fails (tl (replies w))"
  shows "\<exists>e. fst (saveFileContent b s p c m w) = Inl e"
proof -
  obtain v where r: "read_sha (ds_read_request s p) w =
      (Inr v, w\<lparr>replies := tl (replies w), trace := trace w @ [Sent (ds_read_request s p)]\<rparr>)"
    using read_sha_runs by blast
  show ?thesis
    using assms r
    by (auto simp: next_fails_def saveFileContent_def encode_json_def op_defs fetch_eq
        split: list.splits option.splits)
qed

lemma saveFile_raises:
  assumes "next_fails (tl (replies w))"
  shows "\<exists>e. fst (saveFile b p c m (r, w)) = Inl e"
proof -
  obtain v where r: "read_sha (rt_read_request r p) w =
      (Inr v, w\<lparr>replies := tl (replies w), trace := trace w @ [Sent (rt_read_request r p)]\<rparr>)"
    using read_sha_runs by blast
  show ?thesis
    using assms r
    by (auto simp: next_fails_def saveFile_def encode_json_def op_defs fetch_eq
        split: list.splits option.splits sum.splits)
qed

lemma uploadFile_raises:
  assumes "next_fails (tl (replies w))"
  shows "\<exists>e. fst (uploadFile b g f c m w) = Inl e"
proof (cases "fst (config_incomplete (gh_config g) w) = Inr False")
  case True
  obtain v where r: "read_sha (gh_read_request b g f) w =
      (Inr v, w\<lparr>replies := tl (replies w), trace := trace w @ [Sent (gh_read_request b g f)]\<rparr>)"
    using read_sha_runs by blast
  show ?thesis
    using assms r config_incomplete_pure [OF True]
    by (auto simp: next_fails_def uploadFile_def op_defs fetch_eq
        split: list.splits option.splits sum.splits)
next
  case False
  then show ?thesis
    using uploadFile_incomplete [of g w b f c m] by auto
qed

lemma readFile_raises:
  assumes "next_fails_not_absent (replies w)"
  shows "\<exists>e. fst (readFile b g f w) = Inl e"
proof (cases "fst (config_incomplete (gh_config g) w) = Inr False")
  case True
  show ?thesis
    using assms config_incomplete_pure [OF True]
    by (auto simp: next_fails_not_absent_def readFile_def op_defs fetch_eq
        split: list.splits option.splits sum.splits)
next
  case False
  then show ?thesis
    using readFile_incomplete [of g w b f] by auto
qed

text \<open>
  Claim C6, as stated, fails.  On a response with status 500 (a failure other than the file
  being absent), \<^verbatim>\<open>DataSyncService.getFileContent\<close> returns \<^verbatim>\<open>null\<close> and
  \<^verbatim>\<open>RealTimeService.getSubmissions\<close> returns the empty list; when the request gets no
  response at all, \<^verbatim>\<open>RealTimeService.getAgents\<close> returns the empty list.  None of them
  throws.
\<close>

theorem read_failures_swallowed_counterexample:
  "status (Response 500 None) \<noteq> 404 \<and>
   \<not> ok (Response 500 None) \<and>
   fst (getFileContent sample_builtins sample_sync ''agents.json'' (world_of [Some (Response 500 None)])) =
     Inr Null \<and>
   fst (rt_getSubmissions sample_builtins sample_rt (world_of [Some (Response 500 None)])) = Inr (Arr []) \<and>
   fst (rt_getAgents sample_builtins sample_rt (world_of [None])) = Inr (Arr [])"
  by (simp add: op_defs ds_defs net_defs rt_defs rt_getSubmissions_def rt_getAgents_def or_else_def
      sample_defs)

text \<open>
  Claim C6, amended.  The writes surface their failures, the reads of the two polling
  services swallow theirs.  When the \<^verbatim>\<open>PUT\<close> of \<^verbatim>\<open>DataSyncService.saveFileContent\<close>,
  \<^verbatim>\<open>RealTimeService.saveFile\<close> or \<^verbatim>\<open>GitHubService.uploadFile\<close> gets no response or one that is
  not ok, the operation throws; when the request of \<^verbatim>\<open>GitHubService.readFile\<close> gets no
  response or one that is neither ok nor 404, \<^verbatim>\<open>readFile\<close> throws.  In that same situation
  \<^verbatim>\<open>DataSyncService.getFileContent\<close> returns \<^verbatim>\<open>null\<close> and logs the error, and
  \<^verbatim>\<open>RealTimeService.getSubmissions\<close> and \<^verbatim>\<open>getAgents\<close> return the empty list; these three
  never throw, in any world.
\<close>

theorem writes_raise_polling_reads_swallow:
  assumes rd: "next_fails_not_absent (replies w)"
      and wr: "next_fails (tl (replies v))"
  shows "(\<exists>e. fst (saveFileContent b s p c m v) = Inl e) \<and>
         (\<exists>e. fst (saveFile b p c m (r, v)) = Inl e) \<and>
         (\<exists>e. fst (uploadFile b g f c' m' v) = Inl e) \<and>
         (\<exists>e. fst (readFile b g f w) = Inl e) \<and>
         fst (getFileContent b s p w) = Inr Null \<and>
         console (snd (getFileContent b s p w)) = console w @ [''Error getting file:''] \<and>
         fst (rt_getSubmissions b r w) = Inr (Arr []) \<and>
         fst (rt_getAgents b r w) = Inr (Arr []) \<and>
         (\<forall>u. \<exists>x. fst (getFileContent b s p u) = Inr x) \<and>
         (\<forall>u. \<exists>x. fst (rt_getSubmissions b r u) = Inr x) \<and>
         (\<forall>u. \<exists>x. fst (rt_getAgents b r u) = Inr x)"
proof -
  have "\<exists>x. fst (getFileContent b s p u) = Inr x" for u
    using getFileContent_runs [of b s p u] by auto
  then show ?thesis
    using saveFileContent_raises [OF wr] saveFile_raises [OF wr] uploadFile_raises [OF wr]
      readFile_raises [OF rd] getFileContent_swallows [OF rd] rt_getSubmissions_swallows [OF rd]
      rt_getAgents_swallows [OF rd] rt_getSubmissions_returns rt_getAgents_returns
    by simp
qed

theorem writes_raise_polling_reads_swallow_witness:
  "fst (saveFileContent sample_builtins sample_sync ''data.json'' (Obj []) (Str ''update'')
      (world_of [Some (Response 404 None), Some (Response 409 None)])) = Inl (Error ''Failed to save'') \<and>
   fst (saveFile sample_builtins ''agents.json'' (Obj []) (Str ''update'')
      (sample_rt, world_of [Some (Response 404 None), Some (Response 409 None)])) = Inl SyntaxError \<and>
   fst (uploadFile sample_builtins sample_gh ''submissions.json'' (Str ''AAAA'') (Str ''update'')
      (world_of [Some (Response 404 None), Some (Response 409 None)])) = Inl (Error ''File upload error:'') \<and>
   fst (readFile sample_builtins sample_gh ''submissions.json'' (world_of [Some (Response 500 None)])) =
     Inl (Error ''File read error:'') \<and>
   fst (getFileContent sample_builtins sample_sync ''data.json'' (world_of [Some (Response 500 None)])) =
     Inr Null"
proof -
  have rd: "next_fails_not_absent (replies (world_of [Some (Response 500 None)]))"
    by (simp add: next_fails_not_absent_def world_of_def ok_def)
  have wr: "next_fails (tl (replies (world_of [Some (Response 404 None), Some (Response 409 None)])))"
    by (simp add: next_fails_def world_of_def ok_def)
  show ?thesis
    using writes_raise_polling_reads_swallow [OF rd wr, of sample_builtins sample_sync
        "''data.json''" "Obj []" "Str ''update''" sample_rt sample_gh "''submissions.json''"
        "Str ''AAAA''" "Str ''update''"]
    by (simp add: op_defs ds_defs net_defs rt_defs save_defs submission_defs sample_defs)
qed

section \<open>Reading a file\<close>

text \<open>
  Claim C9.  Let the configuration of the \<^verbatim>\<open>GitHubService\<close> be complete, so that
  \<^verbatim>\<open>readFile\<close> sends its request, and let the server answer with a response.  If the
  response is not ok, \<^verbatim>\<open>readFile\<close> returns \<^verbatim>\<open>null\<close> exactly when the status is 404 and
  throws for every other status.  If it is ok and its document has a truthy \<open>content\<close>
  that decodes to \<open>text\<close>, \<^verbatim>\<open>readFile\<close> returns the value \<open>text\<close> parses to when it
  parses, and the string \<open>text\<close> when it does not (content that does not decode makes it
  throw); if the document's \<open>content\<close> is not truthy, \<^verbatim>\<open>readFile\<close> returns \<^verbatim>\<open>null\<close>.
\<close>

theorem readFile_results:
  assumes c: "fst (config_incomplete (gh_config g) w) = Inr False"
      and r: "replies w = Some resp # rs"
  shows "(\<not> ok resp \<longrightarrow>
            (fst (readFile b g f w) = Inr Null) = (status resp = 404) \<and>
            (status resp \<noteq> 404 \<longrightarrow> (\<exists>e. fst (readFile b g f w) = Inl e))) \<and>
         (ok resp \<longrightarrow>
            (\<forall>data c. payload resp = Some data \<and> get_prop data ''content'' = Inr c \<longrightarrow>
               (if truthy c
                then (\<forall>text. atob b c = Some text \<longrightarrow>
                        fst (readFile b g f w) =
                          Inr (case JSON_parse b text of Some v \<Rightarrow> v | None \<Rightarrow> Str text)) \<and>
                     (atob b c = None \<longrightarrow> (\<exists>e. fst (readFile b g f w) = Inl e))
                else fst (readFile b g f w) = Inr Null)))"
  using config_incomplete_pure [OF c] r
  by (auto simp: readFile_def op_defs fetch_eq split: option.splits)

theorem readFile_results_witness:
  "fst (readFile sample_builtins sample_gh ''notes.txt''
      (world_of [Some (Response 200 (Some (file_document ''s3'' ''plain text'')))])) =
     Inr (Str ''plain text'') \<and>
   fst (readFile sample_builtins sample_gh ''submissions.json'' submissions_world) =
     Inr (Obj [(''submissions'', Arr [Obj [(''id'', Str ''1'')]])]) \<and>
   fst (readFile sample_builtins sample_gh ''submissions.json'' create_world) = Inr Null \<and>
   fst (readFile sample_builtins sample_gh ''submissions.json'' (world_of [Some (Response 403 None)])) =
     Inl (Error ''File read error:'') \<and>
   fst (readFile sample_builtins sample_gh ''big.bin''
      (world_of [Some (Response 200 (Some (file_document ''s4'' '''')))])) = Inr Null"
proof -
  let ?w = "world_of [Some (Response 200 (Some (file_document ''s3'' ''plain text'')))]"
  have c: "fst (config_incomplete (gh_config sample_gh) ?w) = Inr False"
    by (simp add: op_defs save_defs)
  have r: "replies ?w = Some (Response 200 (Some (file_document ''s3'' ''plain text''))) # []"
    by (simp add: world_of_def)
  show ?thesis
    using readFile_results [OF c r, of sample_builtins "''notes.txt''"]
    by (simp add: op_defs save_defs submission_defs sample_defs net_defs)
qed

section \<open>Login of a field agent\<close>














section \<open>A submission is not a transaction\<close>











end
